theory Spec2Isabelle
  imports Main
begin

section \<open>Strings and characters\<close>

text \<open>
  A JavaScript string is modelled as a HOL \<^typ>\<open>string\<close>, one \<^typ>\<open>char\<close> for each code
  unit. The character classes below are the ECMAScript ones restricted to ASCII:
  a code unit beyond ASCII is kept as an opaque character that is neither a letter, a
  digit, white space nor a line terminator, and that \<open>toLowerCase\<close> leaves alone. The
  model is therefore exact on the inputs without non-ASCII white space and without
  non-ASCII letters whose lower case is ASCII.
\<close>

text \<open>The backslash, which a HOL string literal cannot hold.\<close>

abbreviation BS :: char where
  "BS \<equiv> CHR 0x5C"

definition isUpper :: "char \<Rightarrow> bool" where
  "isUpper c = (65 \<le> (of_char c :: nat) \<and> (of_char c :: nat) \<le> 90)"

definition isLower :: "char \<Rightarrow> bool" where
  "isLower c = (97 \<le> (of_char c :: nat) \<and> (of_char c :: nat) \<le> 122)"

definition isDigit :: "char \<Rightarrow> bool" where
  "isDigit c = (48 \<le> (of_char c :: nat) \<and> (of_char c :: nat) \<le> 57)"

definition isLetter :: "char \<Rightarrow> bool" where
  "isLetter c = (isUpper c \<or> isLower c)"

definition isAlnum :: "char \<Rightarrow> bool" where
  "isAlnum c = (isLetter c \<or> isDigit c)"

text \<open>The class \<open>\w\<close>: letters, digits and the underscore.\<close>

definition isWord :: "char \<Rightarrow> bool" where
  "isWord c = (isAlnum c \<or> c = CHR ''_'')"

text \<open>The class \<open>\s\<close>: tab, line feed, vertical tab, form feed, carriage return, space.\<close>

definition isSpace :: "char \<Rightarrow> bool" where
  "isSpace c = ((9 \<le> (of_char c :: nat) \<and> (of_char c :: nat) \<le> 13) \<or> c = CHR '' '')"

definition lineTerminator :: "char \<Rightarrow> bool" where
  "lineTerminator c = (c = CHR 0x0A \<or> c = CHR 0x0D)"

text \<open>\<open>mapChar xs ys c\<close> is the character of \<open>ys\<close> at the place where \<open>c\<close> stands in \<open>xs\<close>.\<close>

fun mapChar :: "string \<Rightarrow> string \<Rightarrow> char \<Rightarrow> char" where
  "mapChar (x # xs) (y # ys) c = (if c = x then y else mapChar xs ys c)"
| "mapChar xs ys c = c"

definition lowerChar :: "char \<Rightarrow> char" where
  "lowerChar c = mapChar ''ABCDEFGHIJKLMNOPQRSTUVWXYZ'' ''abcdefghijklmnopqrstuvwxyz'' c"

definition toLowerCase :: "string \<Rightarrow> string" where
  "toLowerCase s = map lowerChar s"

text \<open>\<open>String.prototype.trim\<close>: white space is removed at both ends.\<close>

definition trim :: "string \<Rightarrow> string" where
  "trim s = rev (dropWhile isSpace (rev (dropWhile isSpace s)))"

text \<open>\<open>s.split(sep)\<close> for a one-character separator: never the empty list.\<close>

fun splitChar :: "char \<Rightarrow> string \<Rightarrow> string list" where
  "splitChar d [] = [[]]"
| "splitChar d (x # xs) =
     (if x = d then [] # splitChar d xs
      else (case splitChar d xs of
              [] \<Rightarrow> [[x]]
            | p # ps \<Rightarrow> (x # p) # ps))"

text \<open>\<open>starts w s\<close> is the rest of \<open>s\<close> after the prefix \<open>w\<close>, when \<open>s\<close> begins with \<open>w\<close>.\<close>

fun starts :: "string \<Rightarrow> string \<Rightarrow> string option" where
  "starts [] s = Some s"
| "starts (w # ws) [] = None"
| "starts (w # ws) (x # xs) = (if w = x then starts ws xs else None)"

text \<open>\<open>s.includes(w)\<close>.\<close>

fun includesStr :: "string \<Rightarrow> string \<Rightarrow> bool" where
  "includesStr [] w = (w = [])"
| "includesStr (x # xs) w = (starts w (x # xs) \<noteq> None \<or> includesStr xs w)"

text \<open>\<open>s.indexOf(w)\<close>, with \<open>None\<close> for the result \<open>-1\<close>.\<close>

fun indexOf :: "string \<Rightarrow> string \<Rightarrow> nat option" where
  "indexOf [] w = (if w = [] then Some 0 else None)"
| "indexOf (x # xs) w =
     (if starts w (x # xs) \<noteq> None then Some 0
      else map_option Suc (indexOf xs w))"

text \<open>
  \<open>s.substring(a, b)\<close> on indices that are not negative: the indices are clamped to the
  length and swapped when \<open>a\<close> is the larger.
\<close>

definition substring :: "string \<Rightarrow> nat \<Rightarrow> nat \<Rightarrow> string" where
  "substring s a b =
     (let a' = min a (length s); b' = min b (length s)
      in take (max a' b' - min a' b') (drop (min a' b') s))"

section \<open>Regular expressions\<close>

text \<open>
  The source rewrites text with ECMAScript regular expressions. They are embedded as
  syntax trees and run by a backtracking matcher in continuation-passing style, which
  tries the alternatives in the order the ECMAScript matcher does: a greedy quantifier
  first takes one more iteration, a lazy one first stops; an iteration of a starred
  expression that consumes nothing is rejected.
\<close>

datatype rx =
    Lit string
  | Cls "char \<Rightarrow> bool"
  | Seq rx rx
  | Alt rx rx
  | Opt rx
  | Star rx
  | StarLazy rx
  | Grp nat rx
  | Bol
  | BolM
  | Eol
  | EolM

primrec rsize :: "rx \<Rightarrow> nat" where
  "rsize (Lit w) = 0"
| "rsize (Cls P) = 0"
| "rsize (Seq a b) = Suc (rsize a + rsize b)"
| "rsize (Alt a b) = Suc (rsize a + rsize b)"
| "rsize (Opt a) = Suc (rsize a)"
| "rsize (Star a) = Suc (rsize a)"
| "rsize (StarLazy a) = Suc (rsize a)"
| "rsize (Grp n a) = Suc (rsize a)"
| "rsize Bol = 0"
| "rsize BolM = 0"
| "rsize Eol = 0"
| "rsize EolM = 0"

text \<open>
  A matcher state: the character before the current position (\<open>None\<close> at the start of
  the input), the rest of the input, and the captures made so far, latest first.
\<close>

type_synonym mstate = "char option \<times> string \<times> (nat \<times> string) list"

function bt :: "rx \<Rightarrow> (mstate \<Rightarrow> mstate option) \<Rightarrow> mstate \<Rightarrow> mstate option" where
  "bt (Lit w) k (p, s, c) =
     (case starts w s of
        None \<Rightarrow> None
      | Some s' \<Rightarrow> k (if w = [] then p else Some (last w), s', c))"
| "bt (Cls P) k (p, s, c) =
     (case s of [] \<Rightarrow> None | x # xs \<Rightarrow> if P x then k (Some x, xs, c) else None)"
| "bt (Seq a b) k st = bt a (\<lambda>st'. bt b k st') st"
| "bt (Alt a b) k st = (case bt a k st of Some r \<Rightarrow> Some r | None \<Rightarrow> bt b k st)"
| "bt (Opt a) k st = (case bt a k st of Some r \<Rightarrow> Some r | None \<Rightarrow> k st)"
| "bt (Star a) k (p, s, c) =
     (case bt a (\<lambda>(p', s', c').
                   if length s' < length s then bt (Star a) k (p', s', c') else None) (p, s, c) of
        Some r \<Rightarrow> Some r
      | None \<Rightarrow> k (p, s, c))"
| "bt (StarLazy a) k (p, s, c) =
     (case k (p, s, c) of
        Some r \<Rightarrow> Some r
      | None \<Rightarrow>
          bt a (\<lambda>(p', s', c').
                  if length s' < length s then bt (StarLazy a) k (p', s', c') else None) (p, s, c))"
| "bt (Grp n a) k (p, s, c) =
     bt a (\<lambda>(p', s', c'). k (p', s', (n, take (length s - length s') s) # c')) (p, s, c)"
| "bt Bol k (p, s, c) = (if p = None then k (p, s, c) else None)"
| "bt BolM k (p, s, c) =
     (case p of
        None \<Rightarrow> k (p, s, c)
      | Some x \<Rightarrow> if lineTerminator x then k (p, s, c) else None)"
| "bt Eol k (p, s, c) = (if s = [] then k (p, s, c) else None)"
| "bt EolM k (p, s, c) =
     (case s of
        [] \<Rightarrow> k (p, s, c)
      | x # xs \<Rightarrow> if lineTerminator x then k (p, s, c) else None)"
  by pat_completeness auto
termination
  by (relation "inv_image (less_than <*lex*> less_than) (\<lambda>(r, k, p, s, c). (rsize r, length s))")
    auto

declare bt.simps [simp del]

text \<open>Sequences of several parts, and \<open>r+\<close> in its greedy and lazy forms.\<close>

fun cat :: "rx list \<Rightarrow> rx" where
  "cat [] = Lit []"
| "cat [r] = r"
| "cat (r # rs) = Seq r (cat rs)"

definition Plus :: "rx \<Rightarrow> rx" where
  "Plus r = Seq r (Star r)"

definition PlusLazy :: "rx \<Rightarrow> rx" where
  "PlusLazy r = Seq r (StarLazy r)"

text \<open>The value of capture \<open>n\<close>; a group that did not take part is the empty string.\<close>

definition cap :: "(nat \<times> string) list \<Rightarrow> nat \<Rightarrow> string" where
  "cap c n = (case map_of c n of None \<Rightarrow> [] | Some v \<Rightarrow> v)"

text \<open>
  A global scan cuts the input into the characters outside every match and the matches,
  from left to right. After an empty match the scan moves on by one character.
\<close>

datatype seg = Ch char | Mt string "(nat \<times> string) list"

function segs :: "rx \<Rightarrow> char option \<Rightarrow> string \<Rightarrow> seg list" where
  "segs r p s =
     (case bt r Some (p, s, []) of
        Some (p', s', c) \<Rightarrow>
          if length s' < length s then Mt (take (length s - length s') s) c # segs r p' s'
          else Mt [] c # (case s of [] \<Rightarrow> [] | x # xs \<Rightarrow> Ch x # segs r (Some x) xs)
      | None \<Rightarrow> (case s of [] \<Rightarrow> [] | x # xs \<Rightarrow> Ch x # segs r (Some x) xs))"
  by pat_completeness auto
termination
  by (relation "measure (\<lambda>(r, p, s). length s)") auto

declare segs.simps [simp del]

fun segText :: "seg \<Rightarrow> string" where
  "segText (Ch x) = [x]"
| "segText (Mt t c) = t"

text \<open>\<open>s.replace(r, f)\<close> for a global expression \<open>r\<close> and a callback \<open>f\<close>.\<close>

definition replaceFn :: "rx \<Rightarrow> (string \<Rightarrow> (nat \<times> string) list \<Rightarrow> string) \<Rightarrow> string \<Rightarrow> string" where
  "replaceFn r f s =
     concat (map (\<lambda>g. case g of Ch x \<Rightarrow> [x] | Mt t c \<Rightarrow> f t c) (segs r None s))"

text \<open>
  The replacement text of \<open>s.replace(r, template)\<close> (GetSubstitution of ECMAScript) for an
  expression with \<open>m\<close> capture groups and no named group: \<open>$$\<close> is a dollar sign,
  \<open>$&\<close> the match, \<open>$`\<close> the text before it, \<open>$'\<close> the text after it, \<open>$n\<close> and
  \<open>$nn\<close> capture \<open>n\<close> when the expression has that many groups; every other
  character stands for itself.
\<close>

definition digitVal :: "char \<Rightarrow> nat" where
  "digitVal c = of_char c - 48"

fun getSubstitution ::
  "nat \<Rightarrow> (nat \<times> string) list \<Rightarrow> string \<Rightarrow> string \<Rightarrow> string \<Rightarrow> string \<Rightarrow> string" where
  "getSubstitution m c pre mt post [] = []"
| "getSubstitution m c pre mt post [x] = [x]"
| "getSubstitution m c pre mt post (x # y # t) =
     (if x \<noteq> CHR ''$'' then x # getSubstitution m c pre mt post (y # t)
      else if y = CHR ''$'' then CHR ''$'' # getSubstitution m c pre mt post t
      else if y = CHR ''&'' then mt @ getSubstitution m c pre mt post t
      else if y = CHR 0x60 then pre @ getSubstitution m c pre mt post t
      else if y = CHR 0x27 then post @ getSubstitution m c pre mt post t
      else if isDigit y then
        (case t of
           z # t' \<Rightarrow>
             if isDigit z \<and> \<not> (m < 10 * digitVal y + digitVal z) then
               (if 1 \<le> 10 * digitVal y + digitVal z
                then cap c (10 * digitVal y + digitVal z) @ getSubstitution m c pre mt post t'
                else x # y # z # getSubstitution m c pre mt post t')
             else if 1 \<le> digitVal y \<and> digitVal y \<le> m
               then cap c (digitVal y) @ getSubstitution m c pre mt post t
               else x # y # getSubstitution m c pre mt post t
         | [] \<Rightarrow>
             if 1 \<le> digitVal y \<and> digitVal y \<le> m
             then cap c (digitVal y) @ getSubstitution m c pre mt post t
             else x # y # getSubstitution m c pre mt post t)
      else x # getSubstitution m c pre mt post (y # t))"

fun expandSegs :: "nat \<Rightarrow> string \<Rightarrow> string \<Rightarrow> seg list \<Rightarrow> string" where
  "expandSegs m tmpl rpre [] = []"
| "expandSegs m tmpl rpre (Ch x # gs) = x # expandSegs m tmpl (x # rpre) gs"
| "expandSegs m tmpl rpre (Mt t c # gs) =
     getSubstitution m c (rev rpre) t (concat (map segText gs)) tmpl
       @ expandSegs m tmpl (rev t @ rpre) gs"

text \<open>\<open>s.replace(r, template)\<close> for a global expression \<open>r\<close> with \<open>m\<close> capture groups.\<close>

definition replaceStr :: "rx \<Rightarrow> nat \<Rightarrow> string \<Rightarrow> string \<Rightarrow> string" where
  "replaceStr r m tmpl s = expandSegs m tmpl [] (segs r None s)"

text \<open>
  \<open>s.match(r)\<close> for an expression that is not global: the leftmost match, as the text
  before it, the match and its captures.
\<close>

fun firstMatch :: "seg list \<Rightarrow> (string \<times> string \<times> (nat \<times> string) list) option" where
  "firstMatch [] = None"
| "firstMatch (Ch x # gs) =
     map_option (\<lambda>(pre, t, c). (x # pre, t, c)) (firstMatch gs)"
| "firstMatch (Mt t c # gs) = Some ([], t, c)"

definition matchRx :: "rx \<Rightarrow> string \<Rightarrow> (string \<times> string \<times> (nat \<times> string) list) option" where
  "matchRx r s = firstMatch (segs r None s)"

text \<open>The captures of every match of a global expression, as a loop over \<open>r.exec(s)\<close> sees them.\<close>

fun allMatches :: "seg list \<Rightarrow> (nat \<times> string) list list" where
  "allMatches [] = []"
| "allMatches (Ch x # gs) = allMatches gs"
| "allMatches (Mt t c # gs) = c # allMatches gs"

definition execAll :: "rx \<Rightarrow> string \<Rightarrow> (nat \<times> string) list list" where
  "execAll r s = allMatches (segs r None s)"

section \<open>The extractor\<close>

subsection \<open>Slugs\<close>

text \<open>
  \<^verbatim>\<open>text.toLowerCase().replace(/[^\w\s-]/g, '').replace(/\s+/g, '-').replace(/-+/g, '-').slice(0, 50)\<close>
\<close>

definition rxNotWordSpaceHyphen :: rx where
  "rxNotWordSpaceHyphen = Cls (\<lambda>c. \<not> (isWord c \<or> isSpace c \<or> c = CHR ''-''))"

definition rxSpaces :: rx where
  "rxSpaces = Plus (Cls isSpace)"

definition rxHyphens :: rx where
  "rxHyphens = Plus (Cls (\<lambda>c. c = CHR ''-''))"

definition slugify :: "string \<Rightarrow> string" where
  "slugify text =
     take 50
       (replaceStr rxHyphens 0 ''-''
         (replaceStr rxSpaces 0 ''-''
           (replaceStr rxNotWordSpaceHyphen 0 [] (toLowerCase text))))"

subsection \<open>Title\<close>







subsection \<open>Images\<close>

text \<open>
  A JavaScript object used as a dictionary is an association list in the order of
  \<open>Object.keys\<close>: an assignment to a key that is present keeps the key's place, a new
  key goes to the end. (Keys that look like array indices, which JavaScript lists first,
  and the key \<open>__proto__\<close> are outside the model.)
\<close>

fun objSet :: "(string \<times> string) list \<Rightarrow> string \<Rightarrow> string \<Rightarrow> (string \<times> string) list" where
  "objSet [] k v = [(k, v)]"
| "objSet ((k', v') # kvs) k v =
     (if k' = k then (k, v) # kvs else (k', v') # objSet kvs k v)"

definition rxIncludeGraphicsStrict :: rx where
  "rxIncludeGraphicsStrict =
     cat [Lit (BS # ''includegraphics''),
          Opt (cat [Star (Cls isSpace), Lit ''['', Star (Cls (\<lambda>c. c \<noteq> CHR '']'')), Lit '']'']),
          Lit ''{'', Grp 1 (Plus (Cls (\<lambda>c. c \<noteq> CHR ''}''))), Lit ''}'']"

text \<open>
  One turn of the loop of \<open>extractImages\<close> for the path captured by a match. The test
  \<^verbatim>\<open>fs.existsSync(path.join(publicAssetsDir, projectFolder, fileName))\<close> reads the file
  system; it is the parameter \<open>assetExists projectFolder fileName\<close>.
\<close>

definition addImage ::
  "(string \<Rightarrow> string \<Rightarrow> bool) \<Rightarrow> (string \<times> string) list \<Rightarrow> string \<Rightarrow> (string \<times> string) list" where
  "addImage assetExists images captured =
     (let imagePath = trim captured;
          parts = splitChar CHR ''/'' imagePath
      in if 2 \<le> length parts then
           (let projectFolder = hd parts;
                fileName = last parts
            in if assetExists projectFolder fileName
               then objSet images fileName (''/assets/'' @ projectFolder @ ''/'' @ fileName)
               else images)
         else images)"

text \<open>The paths of the image-inclusion commands of a document, in the order of the matches.\<close>

definition imagePaths :: "string \<Rightarrow> string list" where
  "imagePaths texContent = map (\<lambda>c. cap c 1) (execAll rxIncludeGraphicsStrict texContent)"

definition extractImages :: "(string \<Rightarrow> string \<Rightarrow> bool) \<Rightarrow> string \<Rightarrow> (string \<times> string) list" where
  "extractImages assetExists texContent = foldl (addImage assetExists) [] (imagePaths texContent)"

subsection \<open>Preview image\<close>

text \<open>
  \<open>getPreviewImage\<close> ends with \<^verbatim>\<open>return `${baseUrl}/assets/placeholder.svg`\<close>, and the
  module declares no \<open>baseUrl\<close>: evaluating the template raises a \<open>ReferenceError\<close>.
\<close>

datatype jsError = ReferenceError

definition coverImages :: "(string \<times> string) list" where
  "coverImages =
     [(''project-1'', ''/assets/project1-cover.jpg''),
      (''project-2'', ''/assets/project2-cover.jpg''),
      (''project-3'', ''/assets/project3-cover.jpg'')]"

definition getPreviewImage :: "(string \<times> string) list \<Rightarrow> string \<Rightarrow> jsError + string" where
  "getPreviewImage images slug =
     (case map_of coverImages slug of
        Some cover \<Rightarrow> Inr cover
      | None \<Rightarrow>
          (case images of
             (k, v) # rest \<Rightarrow> Inr v
           | [] \<Rightarrow> Inl ReferenceError))"

text \<open>
  An entry of the image mapping comes from a referenced path when the path has at least two
  segments, the file of its first and last segments exists, and the entry is the last
  segment with the public path built from both.
\<close>

definition fromPath :: "(string \<Rightarrow> string \<Rightarrow> bool) \<Rightarrow> string \<Rightarrow> string \<times> string \<Rightarrow> bool" where
  "fromPath assetExists p kv =
     (let parts = splitChar CHR ''/'' (trim p)
      in 2 \<le> length parts \<and> assetExists (hd parts) (last parts) \<and>
         kv = (last parts, ''/assets/'' @ hd parts @ ''/'' @ last parts))"

subsection \<open>The slug in the words of the specification\<close>

text \<open>
  \<open>squeeze P\<close> turns every maximal run of characters of the class \<open>P\<close> into one
  hyphen. \<open>slugifySpec keep\<close> is the slug as the specification words it, for the class
  \<open>keep\<close> of the characters that are not stripped: lower-case, strip, collapse the
  runs of white space, collapse the runs of hyphens, truncate to 50 characters.
\<close>

function squeeze :: "(char \<Rightarrow> bool) \<Rightarrow> string \<Rightarrow> string" where
  "squeeze P [] = []"
| "squeeze P (x # xs) =
     (if P x then CHR ''-'' # squeeze P (dropWhile P xs) else x # squeeze P xs)"
  by pat_completeness auto
termination
  by (relation "measure (\<lambda>(P, s). length s)") (auto simp: length_dropWhile_le less_Suc_eq_le)

definition slugifySpec :: "(char \<Rightarrow> bool) \<Rightarrow> string \<Rightarrow> string" where
  "slugifySpec keep name =
     take 50 (squeeze (\<lambda>c. c = CHR ''-'') (squeeze isSpace (filter keep (toLowerCase name))))"

section \<open>The transpiler\<close>

text \<open>
  The bullet U+2022 of the list templates lies outside the 8-bit characters; it is
  represented by one character beyond ASCII, which the model treats as it treats every
  such character.
\<close>

abbreviation NL :: char where
  "NL \<equiv> CHR 0x0A"

definition bullet :: char where
  "bullet = CHR 0x95"

text \<open>A number in a template literal: its decimal digits.\<close>

definition digitChar :: "nat \<Rightarrow> char" where
  "digitChar n = ''0123456789'' ! n"

function showNat :: "nat \<Rightarrow> string" where
  "showNat n = (if n < 10 then [digitChar n] else showNat (n div 10) @ [digitChar (n mod 10)])"
  by pat_completeness auto
termination
  by (relation "measure (\<lambda>n. n)") auto

declare showNat.simps [simp del]

subsection \<open>Further operations on strings\<close>

text \<open>A global \<open>replace\<close> whose callback also updates a state.\<close>

fun replaceSt ::
  "(string \<Rightarrow> (nat \<times> string) list \<Rightarrow> 'st \<Rightarrow> string \<times> 'st) \<Rightarrow> seg list \<Rightarrow> 'st \<Rightarrow> string \<times> 'st" where
  "replaceSt f [] st = ([], st)"
| "replaceSt f (Ch x # gs) st = (case replaceSt f gs st of (r, st') \<Rightarrow> (x # r, st'))"
| "replaceSt f (Mt t c # gs) st =
     (case f t c st of
        (out, st1) \<Rightarrow> (case replaceSt f gs st1 of (r, st2) \<Rightarrow> (out @ r, st2)))"

text \<open>\<open>s.replace(r, template)\<close> for an expression that is not global: the first match only.\<close>

definition replaceFirst :: "rx \<Rightarrow> nat \<Rightarrow> string \<Rightarrow> string \<Rightarrow> string" where
  "replaceFirst r m tmpl s =
     (case matchRx r s of
        None \<Rightarrow> s
      | Some (pre, t, c) \<Rightarrow>
          (let post = drop (length pre + length t) s
           in pre @ getSubstitution m c pre t post tmpl @ post))"

text \<open>\<open>s.replace(key, value)\<close> for a string \<open>key\<close>: the first occurrence only.\<close>

definition replaceFirstString :: "string \<Rightarrow> string \<Rightarrow> string \<Rightarrow> string" where
  "replaceFirstString key val s =
     (case indexOf s key of
        None \<Rightarrow> s
      | Some i \<Rightarrow>
          (let pre = take i s; post = drop (i + length key) s
           in pre @ getSubstitution 0 [] pre key post val @ post))"

text \<open>\<open>s.split(r)\<close> for an expression that matches no empty text.\<close>

fun splitSegs :: "string \<Rightarrow> seg list \<Rightarrow> string list" where
  "splitSegs racc [] = [rev racc]"
| "splitSegs racc (Ch x # gs) = splitSegs (x # racc) gs"
| "splitSegs racc (Mt t c # gs) = rev racc # splitSegs [] gs"

definition splitRx :: "rx \<Rightarrow> string \<Rightarrow> string list" where
  "splitRx r s = splitSegs [] (segs r None s)"

subsection \<open>Escaping\<close>

text \<open>\<^verbatim>\<open>text.replace(/[&<>"']/g, (char) => map[char] || char)\<close>\<close>

definition escapeEntity :: "string \<Rightarrow> string" where
  \<open>escapeEntity ch =
     (if ch = ''&'' then ''&amp;''
      else if ch = ''<'' then ''&lt;''
      else if ch = ''>'' then ''&gt;''
      else if ch = [CHR 0x22] then ''&quot;''
      else if ch = [CHR 0x27] then ''&#039;''
      else ch)\<close>

definition rxHtmlSpecial :: rx where
  "rxHtmlSpecial =
     Cls (\<lambda>c. c = CHR ''&'' \<or> c = CHR ''<'' \<or> c = CHR ''>'' \<or> c = CHR 0x22 \<or> c = CHR 0x27)"

definition escapeHtml :: "string \<Rightarrow> string" where
  "escapeHtml text = replaceFn rxHtmlSpecial (\<lambda>t c. escapeEntity t) text"

subsection \<open>The expressions of the pipeline\<close>

definition notCh :: "char \<Rightarrow> rx" where
  "notCh x = Cls (\<lambda>c. c \<noteq> x)"

text \<open>\<open>[\s\S]\<close> is any character, \<open>.\<close> any character but a line terminator.\<close>

definition anyCh :: rx where
  "anyCh = Cls (\<lambda>c. True)"

definition dotCh :: rx where
  "dotCh = Cls (\<lambda>c. \<not> lineTerminator c)"

text \<open>\<open>\{[^}]*\}\<close>, \<open>\{([^}]*)\}\<close>, \<open>\{([^}]+)\}\<close> and \<open>\[[^\]]*\]\<close>.\<close>

definition braceArg :: rx where
  "braceArg = cat [Lit ''{'', Star (notCh CHR ''}''), Lit ''}'']"

definition braceCap0 :: "nat \<Rightarrow> rx" where
  "braceCap0 n = cat [Lit ''{'', Grp n (Star (notCh CHR ''}'')), Lit ''}'']"

definition braceCap1 :: "nat \<Rightarrow> rx" where
  "braceCap1 n = cat [Lit ''{'', Grp n (Plus (notCh CHR ''}'')), Lit ''}'']"

definition bracketArg :: rx where
  "bracketArg = cat [Lit ''['', Star (notCh CHR '']''), Lit '']'']"

text \<open>A command name after its backslash.\<close>

definition cmd :: "string \<Rightarrow> rx" where
  "cmd name = Lit (BS # name)"

text \<open>\<^verbatim>\<open>/\\texorpdfstring\{[^}]*\}\{([^}]*)\}/g\<close>\<close>

definition rxTexorpdfstring :: rx where
  "rxTexorpdfstring = cat [cmd ''texorpdfstring'', braceArg, braceCap0 1]"

text \<open>
  \<^verbatim>\<open>/\\\[([\s\S]*?)\\\]/g\<close>, \<^verbatim>\<open>/\$\$([\s\S]*?)\$\$/g\<close>,
  \<^verbatim>\<open>/\\begin\{equation\*?\}([\s\S]*?)\\end\{equation\*?\}/g\<close> and the same for the other
  environments, and \<^verbatim>\<open>/\$([^$]+?)\$/g\<close>.
\<close>

definition rxDisplayBracket :: rx where
  "rxDisplayBracket = cat [Lit [BS, CHR ''[''], Grp 1 (StarLazy anyCh), Lit [BS, CHR '']'']]"

definition rxDisplayDollar :: rx where
  "rxDisplayDollar = cat [Lit ''$$'', Grp 1 (StarLazy anyCh), Lit ''$$'']"

definition rxMathEnv :: "string \<Rightarrow> rx" where
  "rxMathEnv name =
     cat [cmd ''begin'', Lit (''{'' @ name), Opt (Lit ''*''), Lit ''}'', Grp 1 (StarLazy anyCh),
          cmd ''end'', Lit (''{'' @ name), Opt (Lit ''*''), Lit ''}'']"

definition rxInlineMath :: rx where
  "rxInlineMath = cat [Lit ''$'', Grp 1 (PlusLazy (notCh CHR ''$'')), Lit ''$'']"

text \<open>The expressions of phase 2, in the order of the source.\<close>

definition rxUsepackage :: rx where
  "rxUsepackage = cat [cmd ''usepackage'', Opt bracketArg, braceArg]"

definition rxEnvBody :: "string \<Rightarrow> rx" where
  "rxEnvBody name =
     cat [cmd ''begin'', Lit (''{'' @ name @ ''}''), StarLazy anyCh, cmd ''end'', Lit (''{'' @ name @ ''}'')]"

definition rxTable :: rx where
  "rxTable =
     cat [cmd ''begin'', Lit ''{table'', Opt (Lit ''*''), Lit ''}'', StarLazy anyCh,
          cmd ''end'', Lit ''{table'', Opt (Lit ''*''), Lit ''}'']"

definition rxTabular :: rx where
  "rxTabular =
     cat [cmd ''begin'', Lit ''{tabular}'', Star (notCh CHR ''}''), Lit ''}'', StarLazy anyCh,
          cmd ''end'', Lit ''{tabular}'']"

definition rxTextwidthFraction :: rx where
  "rxTextwidthFraction = cat [Lit ''0.'', Plus (Cls isDigit), cmd ''textwidth'']"

definition rxComment :: rx where
  "rxComment = cat [Lit ''%'', Star (notCh NL)]"

definition rxBlankLine :: rx where
  "rxBlankLine = cat [BolM, Star (Cls (\<lambda>c. \<not> isAlnum c)), Lit [NL]]"

definition structureRxs :: "rx list" where
  "structureRxs =
     [cat [cmd ''documentclass'', braceArg],
      rxUsepackage,
      cat [cmd ''begin'', Lit ''{document}''],
      cat [cmd ''end'', Lit ''{document}''],
      rxEnvBody ''abstract'',
      cmd ''maketitle'',
      rxTable,
      rxTabular,
      cat [cmd ''geometry'', braceArg],
      cat [cmd ''pagestyle'', braceArg],
      cat [cmd ''setcounter'', braceArg, braceArg],
      cat [cmd ''renewcommand'', braceArg, braceArg]]"

definition figureLeakRxs :: "rx list" where
  "figureLeakRxs =
     [cmd ''centering'',
      cmd ''hfill'',
      cat [cmd ''caption'', braceArg],
      cat [cmd ''label'', braceArg],
      Lit ''[H]'', Lit ''[h]'', Lit ''[t]'', Lit ''[b]'', Lit ''[htbp]'', Lit ''[!htbp]'']"

text \<open>The expressions of phases 3 to 5, each with its replacement text.\<close>

definition rxCmdCap :: "string \<Rightarrow> rx" where
  "rxCmdCap name = cat [cmd name, braceCap1 1]"

definition rxCmdStarCap :: "string \<Rightarrow> rx" where
  "rxCmdStarCap name = cat [cmd name, Opt (Lit ''*''), braceCap1 1]"

definition metadataRxs :: "rx list" where
  "metadataRxs =
     [cat [cmd ''title'', braceArg], cat [cmd ''author'', braceArg], cat [cmd ''date'', braceArg],
      cmd ''today'']"

definition markupRules :: "(rx \<times> string) list" where
  \<open>markupRules =
     [(rxCmdCap ''footnote'', ''<sup class="text-orange-400 cursor-help" title="$1">[*]</sup>''),
      (rxCmdStarCap ''section'', ''<h2 class="text-3xl font-bold mt-10 mb-5 text-white border-b border-orange-500/50 pb-2">$1</h2>''),
      (rxCmdStarCap ''subsection'', ''<h3 class="text-2xl font-semibold mt-8 mb-4 text-gray-100">$1</h3>''),
      (rxCmdStarCap ''subsubsection'', ''<h4 class="text-xl font-semibold mt-6 mb-3 text-gray-200">$1</h4>''),
      (rxCmdCap ''textbf'', ''<strong>$1</strong>''),
      (rxCmdCap ''textit'', ''<em>$1</em>''),
      (rxCmdCap ''texttt'', ''<code>$1</code>''),
      (rxCmdCap ''emph'', ''<em>$1</em>''),
      (rxCmdCap ''textsl'', ''<em>$1</em>''),
      (rxCmdCap ''textsc'', ''<span class="uppercase">$1</span>''),
      (rxCmdCap ''textrm'', ''$1''),
      (rxCmdCap ''textsf'', ''$1'')]\<close>

text \<open>
  The expressions of the figure phase:
  \<^verbatim>\<open>/\\begin\{figure\}(?:\[[^\]]*\])?([\s\S]*?)\\end\{figure\}/g\<close>,
  \<^verbatim>\<open>/\\begin\{subfigure\}(?:\{[^}]*\\textwidth\})?([\s\S]*?)\\end\{subfigure\}/g\<close>,
  \<^verbatim>\<open>/\\begin\{minipage\}(?:\[[^\]]*\])?\{[^}]*\}([\s\S]*?)\\end\{minipage\}/g\<close>,
  \<^verbatim>\<open>/\\includegraphics(?:\s*\[([^\]]*)\])?\s*\{([^}]+)\}/\<close> (capture 1 is the width
  specifier, capture 2 the path), the same without the first capture,
  \<^verbatim>\<open>/\\caption\{([^}]*)\}/\<close>,
  \<^verbatim>\<open>/\\caption\*?\{([^}]*)\}/\<close> and \<^verbatim>\<open>/\.[^.]+$/\<close>.
\<close>

definition rxFigure :: rx where
  "rxFigure =
     cat [cmd ''begin'', Lit ''{figure}'', Opt bracketArg, Grp 1 (StarLazy anyCh),
          cmd ''end'', Lit ''{figure}'']"

definition rxSubfigure :: rx where
  "rxSubfigure =
     cat [cmd ''begin'', Lit ''{subfigure}'',
          Opt (cat [Lit ''{'', Star (notCh CHR ''}''), cmd ''textwidth'', Lit ''}'']),
          Grp 1 (StarLazy anyCh), cmd ''end'', Lit ''{subfigure}'']"

definition rxMinipage :: rx where
  "rxMinipage =
     cat [cmd ''begin'', Lit ''{minipage}'', Opt bracketArg, braceArg,
          Grp 1 (StarLazy anyCh), cmd ''end'', Lit ''{minipage}'']"

definition rxIncludeGraphics :: rx where
  "rxIncludeGraphics =
     cat [cmd ''includegraphics'',
          Opt (cat [Star (Cls isSpace), Lit ''['', Grp 1 (Star (notCh CHR '']'')), Lit '']'']),
          Star (Cls isSpace), Lit ''{'', Grp 2 (Plus (notCh CHR ''}'')), Lit ''}'']"

definition rxIncludeGraphicsPath :: rx where
  "rxIncludeGraphicsPath =
     cat [cmd ''includegraphics'',
          Opt (cat [Star (Cls isSpace), bracketArg]),
          Star (Cls isSpace), braceCap1 1]"

definition rxCaption :: rx where
  "rxCaption = cat [cmd ''caption'', braceCap0 1]"

definition rxCaptionStar :: rx where
  "rxCaptionStar = cat [cmd ''caption'', Opt (Lit ''*''), braceCap0 1]"

definition rxExtension :: rx where
  "rxExtension = cat [Lit ''.'', Plus (notCh CHR ''.''), Eol]"

text \<open>
  The expressions of the list phases: \<^verbatim>\<open>/\\item\s*/\<close>, \<^verbatim>\<open>/\\\\/g\<close>,
  \<^verbatim>\<open>/^---+$/gm\<close>, \<^verbatim>\<open>/(?:^|\n)\s*-\s+([^\n\\]+)(?:\s*\\\\)?/g\<close> and
  \<^verbatim>\<open>/((?:<li[^>]*>.*?<\/li>\s*)+)/g\<close>.
\<close>

definition rxItem :: rx where
  "rxItem = cat [cmd ''item'', Star (Cls isSpace)]"

definition rxLineBreak :: rx where
  "rxLineBreak = Lit [BS, BS]"

definition rxRule :: rx where
  "rxRule = cat [BolM, Lit ''--'', Plus (Lit ''-''), EolM]"

definition rxBullet :: rx where
  "rxBullet =
     cat [Alt Bol (Lit [NL]), Star (Cls isSpace), Lit ''-'', Plus (Cls isSpace),
          Grp 1 (Plus (Cls (\<lambda>c. c \<noteq> NL \<and> c \<noteq> BS))),
          Opt (cat [Star (Cls isSpace), Lit [BS, BS]])]"

definition rxListItems :: rx where
  "rxListItems =
     Grp 1 (Plus (cat [Lit ''<li'', Star (notCh CHR ''>''), Lit ''>'', StarLazy dotCh, Lit ''</li>'',
                       Star (Cls isSpace)]))"

text \<open>
  The expressions of the last sweep: \<^verbatim>\<open>/\\[a-zA-Z]+(?:\{[^}]*\})?/g\<close>,
  \<^verbatim>\<open>/\\[^a-zA-Z]/g\<close>, \<^verbatim>\<open>/\{([^}]*)\}/g\<close>; and \<^verbatim>\<open>/\n\n+/\<close> of the paragraphs.
\<close>

definition rxCommand :: rx where
  "rxCommand = cat [Lit [BS], Plus (Cls isLetter), Opt braceArg]"

definition rxEscapedChar :: rx where
  "rxEscapedChar = cat [Lit [BS], Cls (\<lambda>c. \<not> isLetter c)]"

definition rxBlankLines :: rx where
  "rxBlankLines = cat [Lit [NL], Plus (Lit [NL])]"

subsection \<open>Phases 0 and 1: command unwrapping and math extraction\<close>

record mathState =
  mathBlocks :: "(string \<times> string) list"
  mathCounter :: nat

definition displayKey :: "nat \<Rightarrow> string" where
  "displayKey n = (''__MATH_DISPLAY_'' @ showNat n @ ''__'')"

definition inlineKey :: "nat \<Rightarrow> string" where
  "inlineKey n = (''__MATH_INLINE_'' @ showNat n @ ''__'')"

definition displayMarkup :: "string \<Rightarrow> string" where
  \<open>displayMarkup math = (''<div class="my-6 overflow-x-auto" data-math="'' @ trim math
                                 @ ''" data-display="true"></div>'')\<close>

definition inlineMarkup :: "string \<Rightarrow> string" where
  \<open>inlineMarkup math = (''<span data-math="'' @ trim math @ ''" data-display="false"></span>'')\<close>

text \<open>The callbacks of the math passes: mint a key, store the markup, count.\<close>

definition mintDisplay :: "string \<Rightarrow> (nat \<times> string) list \<Rightarrow> mathState \<Rightarrow> string \<times> mathState" where
  "mintDisplay t c st =
     (let key = displayKey (mathCounter st)
      in (key, \<lparr>mathBlocks = objSet (mathBlocks st) key (displayMarkup (cap c 1)),
                 mathCounter = mathCounter st + 1\<rparr>))"

definition mintInline :: "string \<Rightarrow> (nat \<times> string) list \<Rightarrow> mathState \<Rightarrow> string \<times> mathState" where
  "mintInline t c st =
     (let key = inlineKey (mathCounter st)
      in (key, \<lparr>mathBlocks = objSet (mathBlocks st) key (inlineMarkup (cap c 1)),
                 mathCounter = mathCounter st + 1\<rparr>))"

definition displayRxs :: "rx list" where
  "displayRxs =
     [rxDisplayBracket, rxDisplayDollar, rxMathEnv ''equation'', rxMathEnv ''align'',
      rxMathEnv ''gather'', rxMathEnv ''eqnarray'', rxMathEnv ''multline'']"

definition extractPass ::
  "(string \<Rightarrow> (nat \<times> string) list \<Rightarrow> mathState \<Rightarrow> string \<times> mathState) \<Rightarrow> string \<times> mathState \<Rightarrow> rx
     \<Rightarrow> string \<times> mathState" where
  "extractPass f hs r = (case hs of (html, st) \<Rightarrow> replaceSt f (segs r None html) st)"

definition phase0 :: "string \<Rightarrow> string" where
  "phase0 html = replaceStr rxTexorpdfstring 1 ''$1'' html"

definition phase1 :: "string \<Rightarrow> string \<times> mathState" where
  "phase1 html =
     extractPass mintInline
       (foldl (extractPass mintDisplay) (html, \<lparr>mathBlocks = [], mathCounter = 0\<rparr>) displayRxs)
       rxInlineMath"

subsection \<open>Phase 2: document structure\<close>

definition removeAll :: "rx list \<Rightarrow> string \<Rightarrow> string" where
  "removeAll rs html = foldl (\<lambda>h r. replaceStr r 0 [] h) html rs"

text \<open>
  \<^verbatim>\<open>html.replace(/0\.48/g, '')\<close> and \<^verbatim>\<open>html.replace(/0\.\d+\\textwidth/g, '')\<close>, the
  two steps that delete width values.
\<close>

definition stripWidth048 :: "string \<Rightarrow> string" where
  "stripWidth048 html = replaceStr (Lit ''0.48'') 0 [] html"

definition stripTextwidth :: "string \<Rightarrow> string" where
  "stripTextwidth html = replaceStr rxTextwidthFraction 0 [] html"

definition stripWidths :: "string \<Rightarrow> string" where
  "stripWidths html = stripTextwidth (stripWidth048 html)"

definition stripComments :: "string \<Rightarrow> string" where
  "stripComments html = replaceStr rxBlankLine 0 [] (replaceStr rxComment 0 [] html)"

definition phase2 :: "string \<Rightarrow> string" where
  "phase2 html =
     stripComments (stripWidths (removeAll figureLeakRxs (removeAll structureRxs html)))"

subsection \<open>Phases 3 to 5: metadata and markup\<close>

definition titleHtml :: "string \<Rightarrow> string" where
  \<open>titleHtml html =
     (case matchRx (rxCmdCap ''title'') html of
        None \<Rightarrow> []
      | Some (pre, t, c) \<Rightarrow> (''<h1 class="text-4xl font-bold mb-3 text-white">'' @ escapeHtml (cap c 1) @ ''</h1>''
                                          @ [NL]))
     @ (case matchRx (rxCmdCap ''author'') html of
          None \<Rightarrow> []
        | Some (pre, t, c) \<Rightarrow> (''<p class="text-base text-gray-400 mb-1">'' @ escapeHtml (cap c 1) @ ''</p>'' @ [NL]))
     @ (case matchRx (rxCmdCap ''date'') html of
          None \<Rightarrow> []
        | Some (pre, t, c) \<Rightarrow> (''<p class="text-sm text-gray-500 mb-6">'' @ escapeHtml (cap c 1) @ ''</p>'' @ [NL]))\<close>

definition applyRules :: "(rx \<times> string) list \<Rightarrow> string \<Rightarrow> string" where
  "applyRules rules html = foldl (\<lambda>h (r, tmpl). replaceStr r 1 tmpl h) html rules"

subsection \<open>Phase 5a: figures\<close>

text \<open>
  The loop that finds the end of the caption: it counts the braces from the character
  after \<open>\caption{\<close> until the count is 0 or the text ends.
\<close>

function braceLoop :: "string \<Rightarrow> int \<Rightarrow> nat \<Rightarrow> nat" where
  "braceLoop s braceCount endIdx =
     (if 0 < braceCount \<and> endIdx < length s
      then braceLoop s
             (braceCount + (if s ! endIdx = CHR ''{'' then 1 else 0)
                         - (if s ! endIdx = CHR ''}'' then 1 else 0))
             (endIdx + 1)
      else endIdx)"
  by pat_completeness auto
termination
  by (relation "measure (\<lambda>(s, b, e). length s - e)") auto

declare braceLoop.simps [simp del]

definition captionOpener :: string where
  "captionOpener = BS # ''caption{''"

definition mainCaption :: "string \<Rightarrow> string" where
  "mainCaption figContent =
     (case matchRx (Lit captionOpener) figContent of
        None \<Rightarrow> []
      | Some m \<Rightarrow>
          (let startIdx = (case indexOf figContent captionOpener of Some i \<Rightarrow> i + 9 | None \<Rightarrow> 8);
               endIdx = braceLoop figContent 1 startIdx
           in substring figContent startIdx (endIdx - 1)))"

text \<open>\<open>processCaptionMath\<close>, with its own counter and its own table of math markup.\<close>

definition capKey :: "nat \<Rightarrow> string" where
  "capKey n = (''__CAP_MATH_'' @ showNat n @ ''__'')"

definition mintCaption :: "string \<Rightarrow> (nat \<times> string) list \<Rightarrow> mathState \<Rightarrow> string \<times> mathState" where
  "mintCaption t c st =
     (let key = capKey (mathCounter st)
      in (key, \<lparr>mathBlocks = objSet (mathBlocks st) key (inlineMarkup (cap c 1)),
                 mathCounter = mathCounter st + 1\<rparr>))"

definition processCaptionMath :: "string \<Rightarrow> string" where
  "processCaptionMath captionText =
     (case extractPass mintCaption (captionText, \<lparr>mathBlocks = [], mathCounter = 0\<rparr>) rxInlineMath of
        (processed, st) \<Rightarrow>
          foldl (\<lambda>p (key, val). replaceFirstString key val p) processed (mathBlocks st))"

text \<open>\<open>findImageUrl\<close>: the first entry of the mapping whose key or whose stem matches.\<close>

definition stem :: "string \<Rightarrow> string" where
  "stem name = toLowerCase (replaceFirst rxExtension 0 [] name)"

definition cleanFileName :: "string \<Rightarrow> string" where
  "cleanFileName fileName =
     (let base = replaceStr rxSpaces 0 [] (last (splitChar CHR ''/'' fileName))
      in if base = [] then fileName else base)"

fun findByName :: "string \<Rightarrow> (string \<times> string) list \<Rightarrow> string option" where
  "findByName clean [] = None"
| "findByName clean ((key, url) # rest) =
     (if toLowerCase key = toLowerCase clean \<or> stem key = stem clean then Some url
      else findByName clean rest)"

definition findImageUrl :: "(string \<times> string) list \<Rightarrow> string \<Rightarrow> string option" where
  "findImageUrl images fileName = findByName (cleanFileName fileName) images"

text \<open>One subfigure block and one minipage block: the items they push.\<close>

definition subfigureItem :: "(string \<times> string) list \<Rightarrow> string \<Rightarrow> string list" where
  \<open>subfigureItem images subfigContent =
     (case matchRx rxIncludeGraphicsPath subfigContent of
        None \<Rightarrow> []
      | Some (pre, t, c) \<Rightarrow>
          (let img = cap c 1;
               subCaption = (case matchRx rxCaption subfigContent of
                               None \<Rightarrow> []
                             | Some (pre', t', sc) \<Rightarrow> (''<p class="text-sm text-gray-400 mt-2 text-center">'' @ cap sc 1 @ ''</p>''))
           in (case findImageUrl images img of
                 None \<Rightarrow> (let fallbackUrl = (''/assets/'' @ img) in [([NL] @ ''            <div class="flex-1 min-w-[280px] max-w-[48%]">'' @ [NL]
                                                                              @ ''              <img src="'' @ fallbackUrl @ ''" alt="'' @ img
                                                                              @ ''" class="w-full h-auto rounded-lg" loading="lazy" />'' @ [NL] @ ''              ''
                                                                              @ subCaption @ [NL] @ ''            </div>'' @ [NL] @ ''          '')])
               | Some url \<Rightarrow>
                   if url \<noteq> [] then [([NL] @ ''            <div class="flex-1 min-w-[280px] max-w-[48%]">'' @ [NL]
                                               @ ''              <img src="'' @ url @ ''" alt="'' @ img
                                               @ ''" class="w-full h-auto rounded-lg" loading="lazy" />'' @ [NL] @ ''              ''
                                               @ subCaption @ [NL] @ ''            </div>'' @ [NL] @ ''          '')]
                   else (let fallbackUrl = (''/assets/'' @ img) in [([NL] @ ''            <div class="flex-1 min-w-[280px] max-w-[48%]">'' @ [NL]
                                                                  @ ''              <img src="'' @ fallbackUrl @ ''" alt="'' @ img
                                                                  @ ''" class="w-full h-auto rounded-lg" loading="lazy" />'' @ [NL] @ ''              ''
                                                                  @ subCaption @ [NL] @ ''            </div>'' @ [NL] @ ''          '')]))))\<close>

definition minipageItem :: "(string \<times> string) list \<Rightarrow> string \<Rightarrow> string list" where
  \<open>minipageItem images minipageContent =
     (case matchRx rxIncludeGraphicsPath minipageContent of
        None \<Rightarrow> []
      | Some (pre, t, c) \<Rightarrow>
          (let img = cap c 1
           in (case findImageUrl images img of
                 None \<Rightarrow> []
               | Some url \<Rightarrow>
                   if url \<noteq> [] then
                     (let subCaption = (case matchRx rxCaptionStar minipageContent of
                                          None \<Rightarrow> []
                                        | Some (pre', t', sc) \<Rightarrow> (''<p class="text-sm text-gray-400 mt-2 text-center">'' @ processCaptionMath (cap sc 1)
                                                                               @ ''</p>''))
                      in [([NL] @ ''            <div class="w-[48%] min-w-[280px]">'' @ [NL]
                             @ ''              <img src="'' @ url @ ''" alt="'' @ img
                             @ ''" class="w-full h-auto rounded-lg" loading="lazy" />'' @ [NL] @ ''              ''
                             @ subCaption @ [NL] @ ''            </div>'' @ [NL] @ ''          '')])
                   else [])))\<close>

text \<open>The display-size class of a directly included image, from its width specifier.\<close>

definition sizeClassOf :: "string \<Rightarrow> string" where
  "sizeClassOf widthSpec =
     (if includesStr widthSpec ''0.48'' \<or> includesStr widthSpec ''0.5'' \<or> includesStr widthSpec ''0.6''
      then ''max-w-md w-full''
      else if includesStr widthSpec ''0.4'' \<or> includesStr widthSpec ''0.3''
      then ''max-w-sm w-full''
      else ''max-w-3xl w-full'')"

definition directItem :: "(string \<times> string) list \<Rightarrow> string \<Rightarrow> string list" where
  \<open>directItem images figContent =
     (case matchRx rxIncludeGraphics figContent of
        None \<Rightarrow> []
      | Some (pre, t, c) \<Rightarrow>
          (let widthSpec = cap c 1;
               imgPath = cap c 2
           in (case findImageUrl images imgPath of
                 None \<Rightarrow> []
               | Some url \<Rightarrow>
                   if url \<noteq> [] then
                     (let sizeClass = sizeClassOf widthSpec
                      in [(''<img src="'' @ url @ ''" alt="'' @ imgPath @ ''" class="'' @ sizeClass
                             @ '' h-auto rounded-lg mx-auto" loading="lazy" />'')])
                   else [])))\<close>

text \<open>The callback of the figure pass.\<close>

definition renderFigure :: "(string \<times> string) list \<Rightarrow> string \<Rightarrow> string" where
  \<open>renderFigure images figContent =
     (let caption = mainCaption figContent;
          grouped =
            concat (map (\<lambda>c. subfigureItem images (cap c 1)) (execAll rxSubfigure figContent))
            @ concat (map (\<lambda>c. minipageItem images (cap c 1)) (execAll rxMinipage figContent));
          imageMatches = (if length grouped = 0 then directItem images figContent else grouped)
      in if length imageMatches = 0 then []
         else
           (let processedCaption = processCaptionMath caption;
                captionHtml = (if processedCaption \<noteq> [] then (''<p class="text-sm text-gray-400 mt-4 text-center italic">'' @ processedCaption
                                                                       @ ''</p>'') else []);
                layoutClass = (if length imageMatches = 4
                               then ''grid grid-cols-1 md:grid-cols-2 gap-4''
                               else ''flex flex-wrap gap-4 justify-center'')
            in ([NL] @ ''      <figure class="my-8">'' @ [NL] @ ''        <div class="'' @ layoutClass
                  @ ''">'' @ [NL] @ ''          '' @ concat imageMatches @ [NL] @ ''        </div>'' @ [NL]
                  @ ''        '' @ captionHtml @ [NL] @ ''      </figure>'' @ [NL] @ ''    '')))\<close>

definition figurePhase :: "(string \<times> string) list \<Rightarrow> string \<Rightarrow> string" where
  "figurePhase images html = replaceFn rxFigure (\<lambda>t c. renderFigure images (cap c 1)) html"

subsection \<open>Standalone images\<close>

fun findStandalone :: "string \<Rightarrow> (string \<times> string) list \<Rightarrow> string" where
  "findStandalone fileName [] = []"
| \<open>findStandalone fileName ((key, url) # rest) =
     (if toLowerCase key = toLowerCase fileName \<or> includesStr key fileName
      then (''<img src="'' @ url @ ''" alt="'' @ fileName
              @ ''" class="max-w-full h-auto rounded-lg my-4" loading="lazy" />'')
      else findStandalone fileName rest)\<close>

definition standaloneImage :: "(string \<times> string) list \<Rightarrow> string \<Rightarrow> string" where
  "standaloneImage images imagePath =
     (let lastPart = last (splitChar CHR ''/'' imagePath);
          fileName = replaceStr rxSpaces 0 [] (if lastPart = [] then imagePath else lastPart)
      in findStandalone fileName images)"

definition imagePhase :: "(string \<times> string) list \<Rightarrow> string \<Rightarrow> string" where
  "imagePhase images html =
     replaceFn rxIncludeGraphicsPath (\<lambda>t c. standaloneImage images (cap c 1)) html"

subsection \<open>Lists\<close>

definition itemText :: "string \<Rightarrow> string" where
  \<open>itemText text =
     replaceStr rxLineBreak 0 []
       (replaceStr (rxCmdCap ''textit'') 1 ''<em>$1</em>''
         (replaceStr (rxCmdCap ''textbf'') 1 ''<strong>$1</strong>'' (trim text)))\<close>

definition itemParts :: "string \<Rightarrow> string list" where
  "itemParts items = filter (\<lambda>s. trim s \<noteq> []) (splitRx rxItem items)"

definition renderItemize :: "string \<Rightarrow> string" where
  \<open>renderItemize items =
     (let listItems = concat (map (\<lambda>text. (let text3 = itemText text in (''<li class="ml-4 mb-2 text-gray-200">'' @ [bullet] @ '' '' @ text3 @ ''</li>''))) (itemParts items))
      in (''<ul class="my-4 space-y-1">'' @ listItems @ ''</ul>''))\<close>

definition renderEnumerate :: "string \<Rightarrow> string" where
  \<open>renderEnumerate items =
     (let parts = itemParts items;
          listItems = concat (map (\<lambda>(idx, text). (let text3 = itemText text in (''<li class="ml-4 mb-2 text-gray-200">'' @ showNat (idx + 1) @ ''. '' @ text3
                                                                                          @ ''</li>'')))
                                  (zip [0 ..< length parts] parts))
      in (''<ol class="my-4 space-y-1">'' @ listItems @ ''</ol>''))\<close>

definition rxList :: "string \<Rightarrow> rx" where
  "rxList name =
     cat [cmd ''begin'', Lit (''{'' @ name @ ''}''), Grp 1 (StarLazy anyCh),
          cmd ''end'', Lit (''{'' @ name @ ''}'')]"

definition listPhase :: "string \<Rightarrow> string" where
  "listPhase html =
     replaceFn (rxList ''enumerate'') (\<lambda>t c. renderEnumerate (cap c 1))
       (replaceFn (rxList ''itemize'') (\<lambda>t c. renderItemize (cap c 1)) html)"

definition bulletPhase :: "string \<Rightarrow> string" where
  \<open>bulletPhase html =
     replaceFn rxListItems (\<lambda>t c. (''<ul class="my-4 space-y-1">'' @ t @ ''</ul>''))
       (replaceFn rxBullet (\<lambda>t c. ([NL] @ ''<li class="ml-4 mb-2 text-gray-200">'' @ [bullet] @ '' '' @ trim (cap c 1)
                                             @ ''</li>''))
         (replaceStr rxRule 0 ''<hr class="my-6 border-gray-600" />'' html))\<close>

subsection \<open>The last sweep, the paragraphs and the restoration\<close>

definition sweep :: "string \<Rightarrow> string" where
  "sweep html =
     trim (replaceStr (braceCap0 1) 1 ''$1''
            (replaceStr rxEscapedChar 0 [] (replaceStr rxCommand 0 [] html)))"

definition wrapParagraph :: "string \<Rightarrow> string" where
  \<open>wrapParagraph para0 =
     (let para = trim para0
      in if para = [] then []
         else if hd para = CHR ''<'' then para
         else (let escaped = escapeHtml para in (''<p class="mb-4 leading-relaxed text-gray-200">'' @ escaped @ ''</p>'')))\<close>

definition paragraphs :: "string \<Rightarrow> string" where
  "paragraphs html =
     concat (filter (\<lambda>p. 0 < length p) (map wrapParagraph (splitRx rxBlankLines html)))"

text \<open>
  The restoration: for every entry of \<open>mathBlocks\<close>, in the order of the keys,
  \<^verbatim>\<open>result.replace(new RegExp(escapeHtml(key), 'g'), value)\<close>. A key holds letters, digits
  and underscores only, so the expression built from it matches the key's text; the
  value is a replacement template.
\<close>

definition restoreMath :: "(string \<times> string) list \<Rightarrow> string \<Rightarrow> string" where
  "restoreMath blocks result =
     foldl (\<lambda>res (key, val). replaceStr (Lit (escapeHtml key)) 0 val res) result blocks"

subsection \<open>parseAndRender\<close>

definition bodyPhases :: "(string \<times> string) list \<Rightarrow> string \<Rightarrow> string" where
  "bodyPhases images html =
     sweep (bulletPhase (listPhase (imagePhase images (figurePhase images
       (applyRules markupRules (removeAll metadataRxs html))))))"

definition parseAndRender :: "string \<Rightarrow> (string \<times> string) list \<Rightarrow> string" where
  "parseAndRender texContent images =
     (case phase1 (phase0 texContent) of
        (html1, st) \<Rightarrow>
          (let html2 = phase2 html1
           in restoreMath (mathBlocks st)
                (titleHtml html2 @ paragraphs (bodyPhases images html2))))"


subsection \<open>Reading the payload back\<close>

text \<open>
  After the fragment is attached, the hydration reads \<open>elem.getAttribute('data-math')\<close>
  and hands it to the math renderer. \<open>dataMathAttr\<close> is that value for the first
  element of a fragment that carries the attribute: in HTML a double-quoted attribute
  value ends at the next double quote. (The parser also decodes character references; the
  fragments below hold none inside the attribute.)
\<close>

definition attrOpener :: string where
  \<open>attrOpener = ''data-math="''\<close>

definition dataMathAttr :: "string \<Rightarrow> string option" where
  "dataMathAttr html =
     (case indexOf html attrOpener of
        None \<Rightarrow> None
      | Some i \<Rightarrow> Some (takeWhile (\<lambda>c. c \<noteq> CHR 0x22) (drop (i + length attrOpener) html)))"

section \<open>Example documents\<close>

text \<open>A document with two image-inclusion commands, the first with a path of one segment.\<close>

definition texTwoImages :: string where
  "texTwoImages =
     BS # ''includegraphics{c.png} '' @ BS # ''includegraphics[width=3cm]{P1/figs/b.png}''"

section \<open>Auxiliary definitions\<close>








text \<open>
  An expression is \<open>blocked\<close> by a set of characters when each of its matches needs a
  character outside the set: it holds a literal with such a character on every path. A
  text has no match of an expression when the scan finds none.
\<close>

fun blocked :: "char set \<Rightarrow> rx \<Rightarrow> bool" where
  "blocked A (Lit w) = (\<not> set w \<subseteq> A)"
| "blocked A (Seq a b) = (blocked A a \<or> blocked A b)"
| "blocked A (Alt a b) = (blocked A a \<and> blocked A b)"
| "blocked A (Grp n a) = blocked A a"
| "blocked A r = False"

definition noMatch :: "rx \<Rightarrow> string \<Rightarrow> bool" where
  "noMatch r s = (segs r None s = map Ch s)"

text \<open>
  The expressions that the pipeline applies to the running text, but for the three that
  are tied to lines, which come after; the paragraphs are split by a further one.
\<close>

definition textRxs :: "rx list" where
  "textRxs =
     [rxTexorpdfstring] @ displayRxs @ [rxInlineMath] @ structureRxs @ figureLeakRxs
     @ [Lit ''0.48'', rxTextwidthFraction, rxComment, rxBlankLine,
        rxCmdCap ''title'', rxCmdCap ''author'', rxCmdCap ''date'']
     @ metadataRxs @ map fst markupRules
     @ [rxFigure, rxIncludeGraphicsPath, rxList ''itemize'', rxList ''enumerate'',
        rxCommand, rxEscapedChar, braceCap0 1]"

definition lineRxs :: "rx list" where
  "lineRxs = [rxRule, rxBullet, rxListItems]"

text \<open>
  All the expressions with which the pipeline rewrites or splits a text. A text is
  \<open>settled\<close> when none of them has a match in it, when it is empty or begins with a tag,
  and when it has no white space at its ends.
\<close>

definition pipelineRxs :: "rx list" where
  "pipelineRxs = textRxs @ lineRxs @ [rxBlankLines]"

definition settled :: "string \<Rightarrow> bool" where
  "settled s =
     ((\<forall>r \<in> set pipelineRxs. noMatch r s) \<and> trim s = s \<and> (s = [] \<or> hd s = CHR ''<''))"

text \<open>
  Prose: a text of one line in ASCII without a backslash, a dollar sign, a percent sign
  or an opening brace, that holds none of the reserved texts (the width value \<open>0.48\<close>, the
  float options and the opening of a list item) and whose first character after leading
  white space is neither a hyphen nor a less-than sign.
\<close>

definition proseChar :: "char \<Rightarrow> bool" where
  "proseChar c =
     ((of_char c :: nat) < 128 \<and>
      c \<notin> set [BS, CHR ''$'', CHR ''%'', CHR ''{'', NL, CHR 0x0D])"

definition reservedTexts :: "string list" where
  "reservedTexts = [''0.48'', ''[H]'', ''[h]'', ''[t]'', ''[b]'', ''[htbp]'', ''[!htbp]'', ''<li'']"

definition prose :: "string \<Rightarrow> bool" where
  "prose t =
     ((\<forall>c \<in> set t. proseChar c) \<and> (\<forall>w \<in> set reservedTexts. indexOf t w = None) \<and>
      starts ''-'' (dropWhile isSpace t) = None \<and> starts ''<'' (dropWhile isSpace t) = None)"

text \<open>The opening tag of a wrapped paragraph, and what \<open>escapeHtml\<close> makes of one character.\<close>

definition paragraphOpen :: string where
  \<open>paragraphOpen = ''<p class="mb-4 leading-relaxed text-gray-200">''\<close>

definition escapeChar :: "char \<Rightarrow> string" where
  "escapeChar x =
     (if x = CHR ''&'' \<or> x = CHR ''<'' \<or> x = CHR ''>'' \<or> x = CHR 0x22 \<or> x = CHR 0x27
      then escapeEntity [x] else [x])"

text \<open>
  Where the expression of the rule cannot match: the text does not begin with a hyphen,
  and no line ends before a later position.
\<close>

definition ruleOk :: "char option \<Rightarrow> string \<Rightarrow> bool" where
  "ruleOk p s =
     (case p of None \<Rightarrow> starts ''-'' s = None | Some c \<Rightarrow> \<not> lineTerminator c)"

section \<open>Properties of the matcher\<close>




lemma takeWhile_run: "\<forall>x \<in> set ts. P x \<Longrightarrow> \<not> P y \<Longrightarrow> takeWhile P (ts @ y # r) = ts"
  by (induction ts) auto

lemma take_minus_dropWhile: "take (length xs - length (dropWhile P xs)) xs = takeWhile P xs"
proof -
  have "length xs - length (dropWhile P xs) = length (takeWhile P xs)"
    by (induction xs) (auto simp: Suc_diff_le length_dropWhile_le)
  moreover have "take (length (takeWhile P xs)) xs = takeWhile P xs"
    by (induction xs) auto
  ultimately show ?thesis by simp
qed

lemma take_Suc_minus_dropWhile:
  "take (Suc (length xs) - length (dropWhile P xs)) (x # xs) = x # takeWhile P xs"
  by (simp add: Suc_diff_le length_dropWhile_le take_minus_dropWhile)

text \<open>
  A greedy run over a character class is deterministic when what follows it cannot start
  with a character of the class: the run is the longest one.
\<close>

lemma bt_Star_Cls_det:
  assumes "\<And>p' s' c'. s' \<noteq> [] \<Longrightarrow> P (hd s') \<Longrightarrow> k (p', s', c') = None"
  shows "bt (Star (Cls P)) k (p, s, c) =
           k (if takeWhile P s = [] then p else Some (last (takeWhile P s)), dropWhile P s, c)"
proof (induction s arbitrary: p)
  case Nil
  show ?case by (simp add: bt.simps)
next
  case (Cons x xs)
  show ?case
  proof (cases "P x")
    case True
    have "k (p, x # xs, c) = None" using assms[of "x # xs" p c] True by simp
    then show ?thesis using True Cons[of "Some x"]
      by (auto simp: bt.simps split: option.splits)
  next
    case False
    then show ?thesis by (simp add: bt.simps)
  qed
qed

lemma bt_Star_Cls_Some:
  "bt (Star (Cls P)) Some (p, s, c) =
     Some (if takeWhile P s = [] then p else Some (last (takeWhile P s)), dropWhile P s, c)"
  by (induction s arbitrary: p) (auto simp: bt.simps)

lemma bt_Plus_Cls_Some:
  "bt (Plus (Cls P)) Some (p, s, c) =
     (case s of
        [] \<Rightarrow> None
      | x # xs \<Rightarrow> if P x then Some (Some (last (takeWhile P s)), dropWhile P s, c) else None)"
  by (cases s) (auto simp: Plus_def bt_Star_Cls_Some bt.simps(2,3))

lemma segs_Cls:
  "segs (Cls P) p [] = []"
  "segs (Cls P) p (x # xs) = (if P x then Mt [x] [] else Ch x) # segs (Cls P) (Some x) xs"
  by (simp_all add: segs.simps bt.simps)

lemma expandSegs_Cls_empty: "expandSegs m [] rpre (segs (Cls P) p s) = filter (\<lambda>c. \<not> P c) s"
  by (induction s arbitrary: p rpre) (simp_all add: segs_Cls)

lemma segs_Plus_Cls:
  "segs (Plus (Cls P)) p [] = []"
  "segs (Plus (Cls P)) p (x # xs) =
     (if P x
      then Mt (x # takeWhile P xs) []
             # segs (Plus (Cls P)) (Some (last (x # takeWhile P xs))) (dropWhile P xs)
      else Ch x # segs (Plus (Cls P)) (Some x) xs)"
   apply (simp add: segs.simps[of _ _ "[]"] bt_Plus_Cls_Some)
  apply (subst segs.simps)
  apply (auto simp add: bt_Plus_Cls_Some length_dropWhile_le less_Suc_eq_le
      take_Suc_minus_dropWhile)
  done

lemma expandSegs_Plus_hyphen:
  "expandSegs m ''-'' rpre (segs (Plus (Cls P)) p s) = squeeze P s"
proof (induction P s arbitrary: p rpre rule: squeeze.induct)
  case (1 P)
  then show ?case by (simp add: segs_Plus_Cls)
next
  case (2 P x xs)
  then show ?case by (simp add: segs_Plus_Cls)
qed



lemma indexOf_None_Cons:
  "indexOf (x # xs) w = None \<Longrightarrow> starts w (x # xs) = None \<and> indexOf xs w = None"
  by (auto split: if_splits)






lemma starts_Some_iff: "starts w s = Some s' \<longleftrightarrow> s = w @ s'"
proof (induction w arbitrary: s)
  case Nil
  show ?case by auto
next
  case (Cons x w)
  show ?case by (cases s) (auto simp: Cons)
qed



text \<open>An expression that is blocked by the characters of a text has no match in it.\<close>

lemma starts_set: "starts w s = Some s' \<Longrightarrow> set s' \<subseteq> set s \<and> set w \<subseteq> set s"
  by (auto simp: starts_Some_iff)

lemma bt_fail_cont:
  "(\<And>p' s' c'. set s' \<subseteq> A \<Longrightarrow> k (p', s', c') = None) \<Longrightarrow> set (fst (snd st)) \<subseteq> A
     \<Longrightarrow> bt r k st = None"
proof (induction r k st rule: bt.induct)
  case (1 w k p s c)
  then show ?case
    using starts_set[of w s] by (auto simp: bt.simps split: option.splits)
next
  case (2 P k p s c)
  then show ?case by (auto simp: bt.simps split: list.splits)
next
  case (3 a b k st)
  have "\<And>p' s' c'. set s' \<subseteq> A \<Longrightarrow> bt b k (p', s', c') = None"
    using 3 by simp
  then show ?case using 3 by (simp add: bt.simps)
next
  case (4 a b k st)
  then show ?case by (simp add: bt.simps)
next
  case (5 a k st)
  then show ?case by (cases st) (simp add: bt.simps)
next
  case (6 a k p s c)
  have "bt a (\<lambda>(p', s', c'). if length s' < length s then bt (Star a) k (p', s', c') else None) (p, s, c) = None"
    using 6 by (intro 6(2)) auto
  then show ?case using 6(3,4) by (simp add: bt.simps)
next
  case (7 a k p s c)
  have "bt a (\<lambda>(p', s', c'). if length s' < length s then bt (StarLazy a) k (p', s', c') else None) (p, s, c) = None"
    using 7 by (intro 7(2)) auto
  then show ?case using 7(3,4) by (simp add: bt.simps)
next
  case (8 n a k p s c)
  then show ?case by (simp add: bt.simps)
next
  case (9 k p s c)
  then show ?case by (simp add: bt.simps)
next
  case (10 k p s c)
  then show ?case by (simp add: bt.simps split: option.splits)
next
  case (11 k p s c)
  then show ?case by (simp add: bt.simps)
next
  case (12 k p s c)
  then show ?case by (simp add: bt.simps split: list.splits)
qed

lemma bt_blocked: "blocked A r \<Longrightarrow> set s \<subseteq> A \<Longrightarrow> bt r k (p, s, c) = None"
proof (induction r arbitrary: k p s c)
  case (Lit w)
  then show ?case using starts_set[of w s] by (auto simp: bt.simps split: option.splits)
next
  case (Seq a b)
  show ?case
  proof (cases "blocked A a")
    case True
    then show ?thesis using Seq by (simp add: bt.simps)
  next
    case False
    then have b: "blocked A b" using Seq.prems by simp
    have "bt a (\<lambda>st'. bt b k st') (p, s, c) = None"
    proof (rule bt_fail_cont[where A = A])
      show "\<And>p' s' c'. set s' \<subseteq> A \<Longrightarrow> bt b k (p', s', c') = None"
        using Seq.IH(2)[OF b] .
      show "set (fst (snd (p, s, c))) \<subseteq> A" using Seq.prems by simp
    qed
    then show ?thesis by (simp add: bt.simps)
  qed
next
  case (Alt a b)
  then show ?case by (simp add: bt.simps)
next
  case (Grp n a)
  then show ?case by (simp add: bt.simps)
qed simp_all

lemma segs_blocked: "blocked A r \<Longrightarrow> set s \<subseteq> A \<Longrightarrow> segs r p s = map Ch s"
proof (induction s arbitrary: p)
  case Nil
  then show ?case by (subst segs.simps) (simp add: bt_blocked)
next
  case (Cons x xs)
  then show ?case by (subst segs.simps) (simp add: bt_blocked)
qed

lemma noMatch_blocked: "blocked A r \<Longrightarrow> set s \<subseteq> A \<Longrightarrow> noMatch r s"
  by (simp add: noMatch_def segs_blocked)

text \<open>A scan without a match leaves every operation without effect.\<close>

lemma expandSegs_Ch: "expandSegs m tmpl rpre (map Ch s) = s"
  by (induction s arbitrary: rpre) auto

lemma replaceSt_Ch: "replaceSt f (map Ch s) st = (s, st)"
  by (induction s) auto

lemma firstMatch_Ch: "firstMatch (map Ch s) = None"
  by (induction s) auto

lemma allMatches_Ch: "allMatches (map Ch s) = []"
  by (induction s) auto

lemma splitSegs_Ch: "splitSegs racc (map Ch s) = [rev racc @ s]"
  by (induction s arbitrary: racc) auto

lemma noMatch_replaceStr: "noMatch r s \<Longrightarrow> replaceStr r m tmpl s = s"
  by (simp add: noMatch_def replaceStr_def expandSegs_Ch)

lemma concat_Ch: "concat (map (\<lambda>g. case g of Ch x \<Rightarrow> [x] | Mt t c \<Rightarrow> f t c) (map Ch s)) = s"
  by (induction s) auto

lemma noMatch_replaceFn: "noMatch r s \<Longrightarrow> replaceFn r f s = s"
  by (simp only: noMatch_def replaceFn_def concat_Ch)

lemma noMatch_matchRx: "noMatch r s \<Longrightarrow> matchRx r s = None"
  by (simp add: noMatch_def matchRx_def firstMatch_Ch)

lemma noMatch_splitRx: "noMatch r s \<Longrightarrow> splitRx r s = [s]"
  by (simp add: noMatch_def splitRx_def splitSegs_Ch)

text \<open>The rules that evaluate the matcher and the character classes on a concrete text.\<close>

lemmas rx_eval =
  bt.simps segs.simps Plus_def PlusLazy_def cap_def replaceStr_def replaceFn_def matchRx_def
  execAll_def isUpper_def isLower_def isDigit_def isLetter_def isAlnum_def isWord_def
  isSpace_def lineTerminator_def lowerChar_def toLowerCase_def trim_def digitVal_def
  digitChar_def

section \<open>Properties of the extractor\<close>

subsection \<open>Slugs\<close>

text \<open>
  C4, as the source has it. For every folder name, \<open>slugify\<close> returns the lower-cased
  name with every character removed that is not a word character (an ASCII letter, a
  digit or the underscore), white space or a hyphen, then every run of white space
  replaced by one hyphen, every run of hyphens by one hyphen, and the result cut to its
  first 50 characters. The underscore is kept.
\<close>

theorem slugify_refines:
  "slugify name = slugifySpec (\<lambda>c. isWord c \<or> isSpace c \<or> c = CHR ''-'') name"
  by (simp add: slugify_def slugifySpec_def replaceStr_def rxHyphens_def rxSpaces_def
      rxNotWordSpaceHyphen_def expandSegs_Plus_hyphen expandSegs_Cls_empty)

text \<open>
  C4, as the claim words it, strips every character that is not alphanumeric, white space
  or a hyphen. The folder name \<open>a_b\<close> keeps its underscore.
\<close>

theorem slugify_underscore_counterexample:
  "slugify ''a_b'' = ''a_b'' \<and>
   slugifySpec (\<lambda>c. isAlnum c \<or> isSpace c \<or> c = CHR ''-'') ''a_b'' = ''ab''"
  by (simp add: slugify_def slugifySpec_def rxHyphens_def rxSpaces_def
      rxNotWordSpaceHyphen_def rx_eval)

subsection \<open>Title\<close>








subsection \<open>Images\<close>

lemma set_objSet: "set (objSet kvs k v) \<subseteq> insert (k, v) (set kvs)"
  by (induction kvs) (auto split: if_splits)

lemma addImage_entries:
  "kv \<in> set (addImage E imgs p) \<Longrightarrow> kv \<in> set imgs \<or> fromPath E p kv"
  using set_objSet[of imgs]
  by (auto simp: addImage_def fromPath_def Let_def split: if_splits)

lemma foldl_addImage_entries:
  "kv \<in> set (foldl (addImage E) imgs ps) \<Longrightarrow> kv \<in> set imgs \<or> (\<exists>p \<in> set ps. fromPath E p kv)"
proof (induction ps arbitrary: imgs)
  case Nil
  then show ?case by simp
next
  case (Cons q qs)
  from Cons.prems have "kv \<in> set (foldl (addImage E) (addImage E imgs q) qs)" by simp
  from Cons.IH[OF this] show ?case using addImage_entries[of kv E imgs q] by auto
qed

text \<open>
  C9. A referenced path of a single segment never changes the image mapping, whatever
  the file system holds; and every entry of the mapping that \<open>extractImages\<close> returns
  comes from a referenced path of at least two segments whose file exists.
\<close>

theorem extractImages_key_origin:
  "(length (splitChar CHR ''/'' (trim q)) < 2 \<longrightarrow> addImage E imgs q = imgs) \<and>
   (kv \<in> set (extractImages E tex) \<longrightarrow> (\<exists>p \<in> set (imagePaths tex). fromPath E p kv))"
  using foldl_addImage_entries[of kv E "[]" "imagePaths tex"]
  by (auto simp: addImage_def extractImages_def Let_def)

lemma imagePaths_texTwoImages: "imagePaths texTwoImages = [''c.png'', ''P1/figs/b.png'']"
  by (simp add: imagePaths_def texTwoImages_def rxIncludeGraphicsStrict_def rx_eval)

theorem extractImages_key_origin_witness:
  "length (splitChar CHR ''/'' (trim ''c.png'')) < 2 \<and>
   addImage (\<lambda>d f. True) [] ''c.png'' = [] \<and>
   (''b.png'', ''/assets/P1/b.png'') \<in> set (extractImages (\<lambda>d f. True) texTwoImages) \<and>
   (\<exists>p \<in> set (imagePaths texTwoImages). fromPath (\<lambda>d f. True) p (''b.png'', ''/assets/P1/b.png''))"
proof -
  have h1: "length (splitChar CHR ''/'' (trim ''c.png'')) < 2"
    by (simp add: rx_eval)
  have h2: "(''b.png'', ''/assets/P1/b.png'') \<in> set (extractImages (\<lambda>d f. True) texTwoImages)"
    by (simp add: extractImages_def imagePaths_texTwoImages addImage_def Let_def rx_eval)
  show ?thesis
    using extractImages_key_origin[of "''c.png''" "\<lambda>d f. True" "[]"
        "(''b.png'', ''/assets/P1/b.png'')" texTwoImages] h1 h2
    by blast
qed

subsection \<open>Preview image\<close>

text \<open>
  C6 says that a project without a cover image and with an empty image mapping gets the
  placeholder path and that nothing is raised. For the slug \<open>project-4\<close> and the empty
  mapping the source raises a \<open>ReferenceError\<close>.
\<close>

theorem getPreviewImage_placeholder_raises:
  "getPreviewImage [] ''project-4'' = Inl ReferenceError"
  by (simp add: getPreviewImage_def coverImages_def)

section \<open>Properties of the transpiler\<close>

subsection \<open>Scans without a match\<close>

lemma noMatch_extractPass: "noMatch r s \<Longrightarrow> extractPass f (s, st) r = (s, st)"
  by (simp add: noMatch_def extractPass_def replaceSt_Ch)

lemma noMatch_removeAll: "\<forall>r \<in> set rs. noMatch r s \<Longrightarrow> removeAll rs s = s"
  unfolding removeAll_def by (induction rs) (auto simp: noMatch_replaceStr)

lemma noMatch_applyRules: "\<forall>r \<in> set (map fst rules). noMatch r s \<Longrightarrow> applyRules rules s = s"
  unfolding applyRules_def by (induction rules) (auto simp: noMatch_replaceStr)

lemma noMatch_displayPasses:
  "\<forall>r \<in> set rs. noMatch r s \<Longrightarrow> foldl (extractPass f) (s, st) rs = (s, st)"
  by (induction rs) (auto simp: noMatch_extractPass)

subsection \<open>The deletion of width values\<close>



































subsection \<open>Texts without a match\<close>

lemmas rx_defs =
  rxTexorpdfstring_def displayRxs_def rxInlineMath_def structureRxs_def figureLeakRxs_def
  rxTextwidthFraction_def rxComment_def rxBlankLine_def rxCmdCap_def rxCmdStarCap_def
  metadataRxs_def markupRules_def rxFigure_def rxIncludeGraphicsPath_def rxList_def
  rxCommand_def rxEscapedChar_def braceCap0_def braceCap1_def braceArg_def bracketArg_def
  cmd_def rxDisplayBracket_def rxDisplayDollar_def rxMathEnv_def rxUsepackage_def
  rxEnvBody_def rxTable_def rxTabular_def notCh_def anyCh_def dotCh_def Plus_def PlusLazy_def
  rxRule_def rxBullet_def rxListItems_def rxBlankLines_def

lemma render_unmatched:
  assumes t: "\<forall>r \<in> set textRxs. noMatch r s"
    and l: "\<forall>r \<in> set lineRxs. noMatch r s"
    and b: "noMatch rxBlankLines (trim s)"
  shows "parseAndRender s images = wrapParagraph (trim s)"
proof -
  note f = t[unfolded textRxs_def, simplified] l[unfolded lineRxs_def, simplified]
  have p0: "phase0 s = s" using f by (simp add: phase0_def noMatch_replaceStr)
  have p1: "phase1 s = (s, \<lparr>mathBlocks = [], mathCounter = 0\<rparr>)"
    using f by (simp add: phase1_def noMatch_displayPasses noMatch_extractPass)
  have p2: "phase2 s = s"
    using f by (simp add: phase2_def stripComments_def stripWidths_def stripWidth048_def
        stripTextwidth_def noMatch_removeAll noMatch_replaceStr)
  have th: "titleHtml s = []" using f by (simp add: titleHtml_def noMatch_matchRx)
  have bd: "bodyPhases images s = trim s"
    using f by (simp add: bodyPhases_def sweep_def bulletPhase_def listPhase_def imagePhase_def
        figurePhase_def noMatch_removeAll noMatch_applyRules noMatch_replaceStr noMatch_replaceFn)
  have pa: "paragraphs (trim s) = wrapParagraph (trim s)"
    using b by (simp add: paragraphs_def noMatch_splitRx)
  show ?thesis
    by (simp add: parseAndRender_def p0 p1 p2 th bd pa restoreMath_def)
qed

text \<open>\<open>trim\<close> keeps a text that neither begins nor ends with white space.\<close>

lemma last_dropWhile: "dropWhile P xs \<noteq> [] \<Longrightarrow> last (dropWhile P xs) = last xs"
  by (induction xs) (auto split: if_splits)

lemma set_trim: "set (trim t) \<subseteq> set t"
proof -
  have "set (trim t) \<subseteq> set (dropWhile isSpace t)"
    unfolding trim_def using set_dropWhileD[of _ isSpace "rev (dropWhile isSpace t)"] by auto
  also have "\<dots> \<subseteq> set t" using set_dropWhileD[of _ isSpace t] by auto
  finally show ?thesis .
qed

lemma trim_ends:
  assumes "trim t \<noteq> []"
  shows "\<not> isSpace (hd (trim t))" and "\<not> isSpace (last (trim t))"
proof -
  let ?d = "dropWhile isSpace t"
  let ?e = "dropWhile isSpace (rev ?d)"
  have e: "?e \<noteq> []" using assms by (simp add: trim_def)
  have d: "?d \<noteq> []"
  proof
    assume dd: "?d = []"
    have "?e = []" unfolding dd by simp
    with e show False by blast
  qed
  have "hd (trim t) = last ?e" using e by (simp add: trim_def hd_rev)
  also have "\<dots> = last (rev ?d)" using e by (rule last_dropWhile)
  also have "\<dots> = hd ?d" using d by (simp add: last_rev)
  finally have "hd (trim t) = hd ?d" .
  then show "\<not> isSpace (hd (trim t))" using d hd_dropWhile[of isSpace t] by simp
  have "last (trim t) = hd ?e" using e by (simp add: trim_def last_rev)
  then show "\<not> isSpace (last (trim t))" using e hd_dropWhile[of isSpace "rev ?d"] by simp
qed

lemma trim_id: "u \<noteq> [] \<Longrightarrow> \<not> isSpace (hd u) \<Longrightarrow> \<not> isSpace (last u) \<Longrightarrow> trim u = u"
proof -
  assume u: "u \<noteq> []" and h: "\<not> isSpace (hd u)" and l: "\<not> isSpace (last u)"
  have a: "dropWhile isSpace u = u" using u h by (cases u) auto
  have "rev u \<noteq> []" "\<not> isSpace (hd (rev u))" using u l by (simp_all add: hd_rev)
  then have b: "dropWhile isSpace (rev u) = rev u" by (cases "rev u") auto
  show ?thesis by (simp add: trim_def a b)
qed

lemma trim_Nil: "trim [] = []"
  by (simp add: trim_def)

lemma trim_trim: "trim (trim t) = trim t"
proof (cases "trim t = []")
  case True
  have "trim [] = []" by (simp add: trim_def)
  then show ?thesis using True by simp
next
  case False
  then show ?thesis using trim_ends[OF False] by (intro trim_id)
qed

text \<open>\<open>escapeHtml\<close> works character by character.\<close>

lemma escapeHtml_segs:
  "concat (map (\<lambda>g. case g of Ch x \<Rightarrow> [x] | Mt t c \<Rightarrow> escapeEntity t) (segs rxHtmlSpecial p s))
     = concat (map escapeChar s)"
  by (induction s arbitrary: p) (auto simp: rxHtmlSpecial_def segs_Cls escapeChar_def)

lemma escapeHtml_concat: "escapeHtml s = concat (map escapeChar s)"
  by (simp add: escapeHtml_def replaceFn_def escapeHtml_segs)

text \<open>
  An expression has no match in a text when it fails at every position; the positions
  are described by a property that holds at the start and is kept by a step.
\<close>

lemma segs_never:
  assumes fail: "\<And>p s'. Q p s' \<Longrightarrow> bt r Some (p, s', []) = None"
    and step: "\<And>p x xs. Q p (x # xs) \<Longrightarrow> Q (Some x) xs"
  shows "Q p s \<Longrightarrow> segs r p s = map Ch s"
proof (induction s arbitrary: p)
  case Nil
  then show ?case by (subst segs.simps) (simp add: fail)
next
  case (Cons x xs)
  then show ?case using step[OF Cons.prems] by (subst segs.simps) (simp add: fail)
qed

lemma noLineEnd_tl: "\<forall>c \<in> set (x # xs). \<not> lineTerminator c \<Longrightarrow> \<forall>c \<in> set xs. \<not> lineTerminator c"
  by simp

lemma rxRule_never:
  assumes "\<forall>c \<in> set s. \<not> lineTerminator c" "starts ''-'' s = None"
  shows "noMatch rxRule s"
  unfolding noMatch_def
proof (rule segs_never[where Q = "\<lambda>p s. (\<forall>c \<in> set s. \<not> lineTerminator c) \<and> ruleOk p s"])
  show "(\<forall>c \<in> set s. \<not> lineTerminator c) \<and> ruleOk None s"
    using assms by (simp add: ruleOk_def)
next
  fix p x xs
  assume "(\<forall>c \<in> set (x # xs). \<not> lineTerminator c) \<and> ruleOk p (x # xs)"
  then show "(\<forall>c \<in> set xs. \<not> lineTerminator c) \<and> ruleOk (Some x) xs"
    by (simp add: ruleOk_def)
next
  fix p s'
  assume q: "(\<forall>c \<in> set s'. \<not> lineTerminator c) \<and> ruleOk p s'"
  show "bt rxRule Some (p, s', []) = None"
  proof (cases p)
    case None
    then have "starts ''-'' s' = None" using q by (simp add: ruleOk_def)
    then have "starts ''--'' s' = None" by (cases s') (auto split: if_splits)
    then show ?thesis using None by (simp add: rxRule_def bt.simps(1,3,10))
  next
    case (Some c)
    then show ?thesis using q by (simp add: rxRule_def ruleOk_def bt.simps(3,10))
  qed
qed

text \<open>
  The expressions of the pipeline need a character that prose does not hold, or they are
  one of the reserved texts, or they are tied to the start of a line.
\<close>

lemma textRxs_prose:
  "\<forall>r \<in> set textRxs. blocked (Collect proseChar) r \<or> (\<exists>w \<in> set reservedTexts. r = Lit w)"
  by (simp add: textRxs_def rx_defs proseChar_def reservedTexts_def)

lemma rxBlankLines_prose: "blocked (Collect proseChar) rxBlankLines"
  by (simp add: rx_defs proseChar_def)

lemma indexOf_None_starts: "w \<noteq> [] \<Longrightarrow> indexOf s w = None \<Longrightarrow> starts w s = None"
  by (cases s; cases w) (auto split: if_splits)

lemma noMatch_Lit: 
  assumes "w \<noteq> []" "indexOf s w = None"
  shows "noMatch (Lit w) s"
  unfolding noMatch_def
proof (rule segs_never[where Q = "\<lambda>p s. indexOf s w = None"])
  show "indexOf s w = None" by (rule assms(2))
next
  fix p :: "char option" and x xs
  assume "indexOf (x # xs) w = None"
  then show "indexOf xs w = None" using indexOf_None_Cons by blast
next
  fix p s'
  assume "indexOf s' w = None"
  then show "bt (Lit w) Some (p, s', []) = None"
    using indexOf_None_starts[OF assms(1)] by (simp add: bt.simps(1))
qed

lemma rxListItems_absent:
  assumes "indexOf s ''<li'' = None"
  shows "noMatch rxListItems s"
  unfolding noMatch_def
proof (rule segs_never[where Q = "\<lambda>p s. indexOf s ''<li'' = None"])
  show "indexOf s ''<li'' = None" by (rule assms)
next
  fix p :: "char option" and x xs
  assume "indexOf (x # xs) ''<li'' = None"
  then show "indexOf xs ''<li'' = None" using indexOf_None_Cons by blast
next
  fix p s'
  assume "indexOf s' ''<li'' = None"
  then have "starts ''<li'' s' = None" by (intro indexOf_None_starts) simp_all
  then show "bt rxListItems Some (p, s', []) = None"
    by (simp add: rxListItems_def Plus_def bt.simps(1,3,8))
qed

lemma rxBullet_absent:
  assumes "NL \<notin> set s" "starts ''-'' (dropWhile isSpace s) = None"
  shows "noMatch rxBullet s"
  unfolding noMatch_def
proof (rule segs_never[where Q = "\<lambda>(p::char option) s. NL \<notin> set s \<and> (p = None \<longrightarrow> starts ''-'' (dropWhile isSpace s) = None)"])
  show "NL \<notin> set s \<and> ((None::char option) = None \<longrightarrow> starts ''-'' (dropWhile isSpace s) = None)"
    using assms by simp
next
  fix p :: "char option" and x xs
  assume "NL \<notin> set (x # xs) \<and> (p = None \<longrightarrow> starts ''-'' (dropWhile isSpace (x # xs)) = None)"
  then show "NL \<notin> set xs \<and> (Some x = None \<longrightarrow> starts ''-'' (dropWhile isSpace xs) = None)"
    by simp
next
  fix p :: "char option" and s'
  assume q: "NL \<notin> set s' \<and> (p = None \<longrightarrow> starts ''-'' (dropWhile isSpace s') = None)"
  have nl: "starts [NL] s' = None" using q by (cases s') auto
  let ?tail = "Seq (Plus (Cls isSpace))
                 (Seq (Grp 1 (Plus (Cls (\<lambda>c. c \<noteq> NL \<and> c \<noteq> BS))))
                    (Opt (Seq (Star (Cls isSpace)) (Lit [BS, BS]))))"
  let ?rest = "Seq (Lit ''-'') ?tail"
  let ?R = "Seq (Star (Cls isSpace)) ?rest"
  have e: "rxBullet = Seq (Alt Bol (Lit [NL])) ?R" by (simp add: rxBullet_def)
  have k: "\<And>p' s'' c'. s'' \<noteq> [] \<Longrightarrow> isSpace (hd s'') \<Longrightarrow> bt ?rest Some (p', s'', c') = None"
  proof -
    fix p' :: "char option" and s'' :: string and c' :: "(nat \<times> string) list"
    assume "s'' \<noteq> []" "isSpace (hd s'')"
    then have "starts ''-'' s'' = None" by (cases s'') (auto simp: isSpace_def)
    then show "bt ?rest Some (p', s'', c') = None"
      by (subst bt.simps(3), subst bt.simps(1)) simp
  qed
  have nlk: "\<And>k. bt (Lit [NL]) k (p, s', []) = None"
    using nl by (simp add: bt.simps(1))
  show "bt rxBullet Some (p, s', []) = None"
  proof (cases p)
    case None
    then have d: "starts ''-'' (dropWhile isSpace s') = None" using q by simp
    have r0: "bt ?rest Some (if takeWhile isSpace s' = [] then None else Some (last (takeWhile isSpace s')),
                 dropWhile isSpace s', []) = None"
      using d by (subst bt.simps(3), subst bt.simps(1)) simp
    have "bt (Star (Cls isSpace)) (\<lambda>st. bt ?rest Some st) (None, s', []) = None"
      by (subst bt_Star_Cls_det) (use k r0 in blast)+
    then have r: "bt ?R Some (None, s', []) = None"
      by (subst bt.simps(3))
    have "bt Bol (\<lambda>st'. bt ?R Some st') (None, s', []) = None"
      using r by (subst bt.simps(9)) simp
    then show ?thesis unfolding e None
      by (subst bt.simps(3), subst bt.simps(4)) (simp add: nlk[unfolded None])
  next
    case (Some c)
    have "bt Bol (\<lambda>st'. bt ?R Some st') (Some c, s', []) = None"
      by (subst bt.simps(9)) simp
    then show ?thesis unfolding e Some
      by (subst bt.simps(3), subst bt.simps(4)) (simp add: nlk[unfolded Some])
  qed
qed

lemma unmatched_prose:
  assumes chars: "set s \<subseteq> Collect proseChar"
    and reserved: "\<forall>w \<in> set reservedTexts. indexOf s w = None"
    and start: "starts ''-'' (dropWhile isSpace s) = None"
  shows "\<forall>r \<in> set pipelineRxs. noMatch r s"
proof -
  have a: "\<forall>r \<in> set textRxs. noMatch r s"
  proof
    fix r assume "r \<in> set textRxs"
    with textRxs_prose
    consider "blocked (Collect proseChar) r" | w where "w \<in> set reservedTexts" "r = Lit w"
      by blast
    then show "noMatch r s"
    proof cases
      case 1
      then show ?thesis using noMatch_blocked[OF _ chars] by blast
    next
      case 2
      then have "w \<noteq> []" by (auto simp: reservedTexts_def)
      then show ?thesis using 2 reserved noMatch_Lit by blast
    qed
  qed
  have nt: "\<forall>c \<in> set s. \<not> lineTerminator c"
    using chars by (auto simp: proseChar_def lineTerminator_def)
  then have nl: "NL \<notin> set s" by (auto simp: lineTerminator_def)
  have s0: "starts ''-'' s = None"
  proof (cases s)
    case Nil
    then show ?thesis by simp
  next
    case (Cons x xs)
    show ?thesis
    proof (cases "x = CHR ''-''")
      case True
      then have "dropWhile isSpace s = s" using Cons by (simp add: isSpace_def)
      then show ?thesis using start by simp
    next
      case False
      then show ?thesis using Cons by simp
    qed
  qed
  have r1: "noMatch rxRule s" by (rule rxRule_never[OF nt s0])
  have r2: "noMatch rxBullet s" by (rule rxBullet_absent[OF nl start])
  have r3: "noMatch rxListItems s"
    using reserved by (intro rxListItems_absent) (simp add: reservedTexts_def)
  have b: "\<forall>r \<in> set lineRxs. noMatch r s" using r1 r2 r3 by (simp add: lineRxs_def)
  have c: "noMatch rxBlankLines s" by (rule noMatch_blocked[OF rxBlankLines_prose chars])
  show ?thesis using a b c by (auto simp: pipelineRxs_def)
qed

text \<open>A settled text is rendered as itself.\<close>

lemma render_settled:
  assumes "settled s"
  shows "parseAndRender s images = s"
proof -
  have a: "\<forall>r \<in> set textRxs. noMatch r s" and b: "\<forall>r \<in> set lineRxs. noMatch r s"
    and c: "noMatch rxBlankLines s" and t: "trim s = s" and h: "s = [] \<or> hd s = CHR ''<''"
    using assms by (auto simp: settled_def pipelineRxs_def)
  have c': "noMatch rxBlankLines (trim s)" using c t by simp
  have "parseAndRender s images = wrapParagraph (trim s)"
    by (rule render_unmatched[OF a b c'])
  also have "\<dots> = s" using t h by (auto simp: wrapParagraph_def)
  finally show ?thesis .
qed

text \<open>What \<open>escapeHtml\<close> and the paragraph element add holds none of the reserved texts.\<close>

lemma escapeChar_special:
  "x = CHR ''&'' \<or> x = CHR ''<'' \<or> x = CHR ''>'' \<or> x = CHR 0x22 \<or> x = CHR 0x27 \<Longrightarrow>
   escapeChar x = escapeEntity [x]"
  by (simp add: escapeChar_def)

lemma escapeChar_other:
  "\<not> (x = CHR ''&'' \<or> x = CHR ''<'' \<or> x = CHR ''>'' \<or> x = CHR 0x22 \<or> x = CHR 0x27) \<Longrightarrow>
   escapeChar x = [x]"
  by (simp add: escapeChar_def)

lemma starts_escape:
  assumes q: "q \<noteq> []"
  shows "\<forall>c \<in> set w. c \<notin> set [CHR ''&'', CHR ''<'', CHR ''>'', CHR 0x22, CHR 0x27] \<Longrightarrow>
         hd q \<notin> set w \<Longrightarrow> starts w v = None \<Longrightarrow> starts w (escapeHtml v @ q) = None"
proof (induction w arbitrary: v)
  case Nil
  then show ?case by simp
next
  case (Cons c w)
  obtain y q' where qq: "q = y # q'" using q by (cases q) auto
  show ?case
  proof (cases v)
    case Nil
    then show ?thesis using Cons.prems(2) qq by (auto simp: escapeHtml_concat)
  next
    case (Cons x v')
    note v = Cons
    show ?thesis
    proof (cases "x = CHR ''&'' \<or> x = CHR ''<'' \<or> x = CHR ''>'' \<or> x = CHR 0x22 \<or> x = CHR 0x27")
      case True
      then have "\<exists>r. escapeChar x = CHR ''&'' # r"
        by (auto simp: escapeChar_def escapeEntity_def)
      then obtain r where "escapeChar x = CHR ''&'' # r" by blast
      moreover have "c \<noteq> CHR ''&''" using Cons.prems(1) by simp
      ultimately show ?thesis using v by (simp add: escapeHtml_concat)
    next
      case False
      then have e: "escapeChar x = [x]" by (rule escapeChar_other)
      show ?thesis
      proof (cases "x = c")
        case True
        then have "starts w v' = None" using Cons.prems(3) v by simp
        moreover have "\<forall>c \<in> set w. c \<notin> set [CHR ''&'', CHR ''<'', CHR ''>'', CHR 0x22, CHR 0x27]"
          using Cons.prems(1) by simp
        moreover have "hd q \<notin> set w" using Cons.prems(2) by simp
        ultimately have "starts w (escapeHtml v' @ q) = None" using Cons.IH by blast
        then show ?thesis using v e True by (simp add: escapeHtml_concat)
      next
        case False
        then show ?thesis using v e by (simp add: escapeHtml_concat)
      qed
    qed
  qed
qed

lemma starts_escape_reserved:
  assumes "w \<in> set reservedTexts"
    and "\<not> (x = CHR ''&'' \<or> x = CHR ''<'' \<or> x = CHR ''>'' \<or> x = CHR 0x22 \<or> x = CHR 0x27)"
    and "starts w (x # v) = None"
  shows "starts w (x # escapeHtml v @ ''</p>'') = None"
proof (cases "w = ''<li''")
  case True
  then show ?thesis using assms(2) by auto
next
  case False
  have "starts w (escapeHtml (x # v) @ ''</p>'') = None"
  proof (rule starts_escape)
    show "''</p>'' \<noteq> []" by simp
    show "\<forall>c \<in> set w. c \<notin> set [CHR ''&'', CHR ''<'', CHR ''>'', CHR 0x22, CHR 0x27]"
      using assms(1) False by (auto simp: reservedTexts_def)
    show "hd ''</p>'' \<notin> set w" using assms(1) False by (auto simp: reservedTexts_def)
    show "starts w (x # v) = None" by (rule assms(3))
  qed
  then show ?thesis using escapeChar_other[OF assms(2)] by (simp add: escapeHtml_concat)
qed

lemma reservedTexts_cases:
  "w \<in> set reservedTexts \<Longrightarrow>
   w = ''0.48'' \<or> w = ''[H]'' \<or> w = ''[h]'' \<or> w = ''[t]'' \<or> w = ''[b]'' \<or> w = ''[htbp]'' \<or>
   w = ''[!htbp]'' \<or> w = ''<li''"
  by (simp add: reservedTexts_def)

lemma indexOf_entity:
  assumes "w \<in> set reservedTexts"
    and "x = CHR ''&'' \<or> x = CHR ''<'' \<or> x = CHR ''>'' \<or> x = CHR 0x22 \<or> x = CHR 0x27"
    and "indexOf r w = None"
  shows "indexOf (escapeChar x @ r) w = None"
  using reservedTexts_cases[OF assms(1)] assms(2,3)
  by (elim disjE) (simp_all add: escapeChar_def escapeEntity_def)

lemma indexOf_close:
  assumes "w \<in> set reservedTexts"
  shows "indexOf ''</p>'' w = None"
  using reservedTexts_cases[OF assms] by (elim disjE) simp_all

lemma indexOf_escape:
  assumes w: "w \<in> set reservedTexts"
  shows "indexOf u w = None \<Longrightarrow> indexOf (escapeHtml u @ ''</p>'') w = None"
proof (induction u)
  case Nil
  show ?case using indexOf_close[OF w] by (simp add: escapeHtml_concat)
next
  case (Cons x u)
  from indexOf_None_Cons[OF Cons.prems]
  have st: "starts w (x # u) = None" and ix: "indexOf u w = None" by simp_all
  have ih: "indexOf (escapeHtml u @ ''</p>'') w = None" using Cons.IH[OF ix] .
  show ?case
  proof (cases "x = CHR ''&'' \<or> x = CHR ''<'' \<or> x = CHR ''>'' \<or> x = CHR 0x22 \<or> x = CHR 0x27")
    case True
    from indexOf_entity[OF w True ih]
    show ?thesis by (simp add: escapeHtml_concat)
  next
    case False
    have "starts w (x # escapeHtml u @ ''</p>'') = None"
      by (rule starts_escape_reserved[OF w False st])
    then show ?thesis using ih escapeChar_other[OF False] by (simp add: escapeHtml_concat)
  qed
qed

lemma indexOf_open:
  assumes "w \<in> set reservedTexts" "indexOf r w = None"
  shows "indexOf (paragraphOpen @ r) w = None"
  using reservedTexts_cases[OF assms(1)] assms(2)
  by (elim disjE) (simp_all add: paragraphOpen_def)

text \<open>A part of a text holds no text that the whole does not hold.\<close>

lemma indexOf_suffix: "indexOf (a @ b) w = None \<Longrightarrow> indexOf b w = None"
proof (induction a)
  case Nil
  then show ?case by simp
next
  case (Cons x a)
  have "indexOf (x # (a @ b)) w = None" using Cons.prems by simp
  from indexOf_None_Cons[OF this] have "indexOf (a @ b) w = None" by blast
  then show ?case by (rule Cons.IH)
qed

lemma indexOf_prefix: "w \<noteq> [] \<Longrightarrow> indexOf (m @ b) w = None \<Longrightarrow> indexOf m w = None"
proof (induction m)
  case Nil
  then show ?case by simp
next
  case (Cons x m)
  have "indexOf (x # (m @ b)) w = None" using Cons.prems(2) by simp
  from indexOf_None_Cons[OF this]
  have st: "starts w (x # m @ b) = None" and ix: "indexOf (m @ b) w = None" by blast+
  have "starts w (x # m) = None"
  proof (cases "starts w (x # m)")
    case None
    then show ?thesis .
  next
    case (Some r)
    then have "x # m = w @ r" by (simp only: starts_Some_iff)
    then have "(x # m) @ b = (w @ r) @ b" by (rule arg_cong)
    then have "x # m @ b = w @ r @ b" by (simp only: append_Cons append_assoc)
    then have "starts w (x # m @ b) = Some (r @ b)"
      by (simp only: starts_Some_iff)
    with st show ?thesis by simp
  qed
  moreover have "indexOf m w = None" by (rule Cons.IH[OF Cons.prems(1) ix])
  ultimately show ?case by simp
qed

lemma trim_decomp: "\<exists>a b. t = a @ trim t @ b"
proof -
  let ?d = "dropWhile isSpace t"
  let ?r = "rev ?d"
  have "rev (takeWhile isSpace ?r @ dropWhile isSpace ?r) = ?d"
    by (simp only: takeWhile_dropWhile_id rev_rev_ident)
  then have d: "?d = trim t @ rev (takeWhile isSpace ?r)"
    by (simp only: rev_append trim_def)
  have "t = takeWhile isSpace t @ ?d" by simp
  then have "t = takeWhile isSpace t @ trim t @ rev (takeWhile isSpace ?r)"
    using d by simp
  then show ?thesis by blast
qed

lemma indexOf_trim: "w \<noteq> [] \<Longrightarrow> indexOf t w = None \<Longrightarrow> indexOf (trim t) w = None"
proof -
  assume w: "w \<noteq> []" and ix: "indexOf t w = None"
  obtain a b where t: "t = a @ trim t @ b" using trim_decomp by blast
  have "indexOf (a @ trim t @ b) w = None" using ix t by simp
  then have "indexOf (trim t @ b) w = None" by (rule indexOf_suffix)
  then show ?thesis by (rule indexOf_prefix[OF w])
qed

lemma hd_trim: "trim t \<noteq> [] \<Longrightarrow> hd (trim t) = hd (dropWhile isSpace t)"
proof -
  assume ne: "trim t \<noteq> []"
  let ?d = "dropWhile isSpace t"
  let ?e = "dropWhile isSpace (rev ?d)"
  have e: "?e \<noteq> []" using ne by (simp add: trim_def)
  have d: "?d \<noteq> []"
  proof
    assume dd: "?d = []"
    have "?e = []" unfolding dd by simp
    with e show False by blast
  qed
  have "hd (trim t) = last ?e" using e by (simp add: trim_def hd_rev)
  also have "\<dots> = last (rev ?d)" using e by (rule last_dropWhile)
  also have "\<dots> = hd ?d" using d by (simp add: last_rev)
  finally show ?thesis .
qed

text \<open>The paragraph of an escaped text is settled, and a prose text is rendered as one.\<close>

lemma proseChar_escape: "proseChar x \<Longrightarrow> \<forall>c \<in> set (escapeChar x). proseChar c"
  by (auto simp: escapeChar_def escapeEntity_def proseChar_def)

lemma settled_paragraph:
  assumes chars: "set u \<subseteq> Collect proseChar"
    and reserved: "\<forall>w \<in> set reservedTexts. indexOf u w = None"
  shows "settled (paragraphOpen @ escapeHtml u @ ''</p>'')"
proof -
  let ?s = "paragraphOpen @ escapeHtml u @ ''</p>''"
  have pe: "set (escapeHtml u) \<subseteq> Collect proseChar"
    using chars proseChar_escape by (auto simp: escapeHtml_concat)
  have po: "set paragraphOpen \<subseteq> Collect proseChar"
    by (simp add: paragraphOpen_def proseChar_def)
  have pc: "set ''</p>'' \<subseteq> Collect proseChar" by (simp add: proseChar_def)
  have ch: "set ?s \<subseteq> Collect proseChar" using pe po pc by auto
  have rs: "\<forall>w \<in> set reservedTexts. indexOf ?s w = None"
    using reserved indexOf_escape indexOf_open by blast
  have ds: "dropWhile isSpace ?s = ?s" by (simp add: paragraphOpen_def isSpace_def)
  have st: "starts ''-'' (dropWhile isSpace ?s) = None"
    unfolding ds by (simp add: paragraphOpen_def)
  have ls: "last ?s = CHR ''>''" by simp
  have ne: "?s \<noteq> []" by simp
  have tm: "trim ?s = ?s"
  proof (rule trim_id[OF ne])
    show "\<not> isSpace (hd ?s)" by (simp add: paragraphOpen_def isSpace_def)
    show "\<not> isSpace (last ?s)" unfolding ls by (simp add: isSpace_def)
  qed
  have h: "hd ?s = CHR ''<''" by (simp add: paragraphOpen_def)
  show ?thesis
    unfolding settled_def using unmatched_prose[OF ch rs st] tm h by blast
qed

lemma settled_Nil: "settled []"
proof -
  have "\<forall>r \<in> set pipelineRxs. noMatch r []"
    by (rule unmatched_prose) (simp_all add: reservedTexts_def)
  then show ?thesis by (simp add: settled_def trim_Nil)
qed

lemma render_prose:
  assumes "prose t"
  shows "parseAndRender t images =
           (if trim t = [] then [] else paragraphOpen @ escapeHtml (trim t) @ ''</p>'')"
proof -
  have ch: "set t \<subseteq> Collect proseChar" and rs: "\<forall>w \<in> set reservedTexts. indexOf t w = None"
    and st: "starts ''-'' (dropWhile isSpace t) = None"
    and lt: "starts ''<'' (dropWhile isSpace t) = None"
    using assms by (auto simp: prose_def)
  have u: "\<forall>r \<in> set pipelineRxs. noMatch r t" by (rule unmatched_prose[OF ch rs st])
  have tr: "set (trim t) \<subseteq> Collect proseChar" using set_trim[of t] ch by blast
  have a: "\<forall>r \<in> set textRxs. noMatch r t" and b: "\<forall>r \<in> set lineRxs. noMatch r t"
    using u by (auto simp: pipelineRxs_def)
  have c: "noMatch rxBlankLines (trim t)"
    by (rule noMatch_blocked[OF rxBlankLines_prose tr])
  have r: "parseAndRender t images = wrapParagraph (trim t)"
    by (rule render_unmatched[OF a b c])
  show ?thesis
  proof (cases "trim t = []")
    case True
    then show ?thesis using r by (simp add: wrapParagraph_def trim_Nil)
  next
    case False
    have "hd (trim t) = hd (dropWhile isSpace t)" by (rule hd_trim[OF False])
    moreover have "dropWhile isSpace t \<noteq> []"
    proof
      assume dd: "dropWhile isSpace t = []"
      have "trim t = []" unfolding trim_def dd by simp
      with False show False by blast
    qed
    ultimately have "hd (trim t) \<noteq> CHR ''<''"
      using lt by (cases "dropWhile isSpace t") (auto split: if_splits)
    then show ?thesis using r False
      by (simp add: wrapParagraph_def trim_trim paragraphOpen_def)
  qed
qed

lemma settled_prose:
  assumes "prose t"
  shows "settled (parseAndRender t images)"
proof (cases "trim t = []")
  case True
  then show ?thesis using render_prose[OF assms, of images] settled_Nil by simp
next
  case False
  have ch: "set (trim t) \<subseteq> Collect proseChar"
    using assms set_trim[of t] by (auto simp: prose_def)
  have rs: "\<forall>w \<in> set reservedTexts. indexOf (trim t) w = None"
  proof
    fix w assume w: "w \<in> set reservedTexts"
    then have "w \<noteq> []" by (auto simp: reservedTexts_def)
    moreover have "indexOf t w = None" using assms w by (simp add: prose_def)
    ultimately show "indexOf (trim t) w = None" by (rule indexOf_trim)
  qed
  show ?thesis
    using render_prose[OF assms, of images] False settled_paragraph[OF ch rs] by simp
qed

subsection \<open>The caption of a figure\<close>

text \<open>
  C1 says that the caption of a figure reaches the figure phase and is rendered beneath
  the figure. The document below is one figure with an image that the mapping resolves
  and the caption \<open>Orbit of {S2}\<close>. The loop of the figure phase does find the whole
  caption in the content of the figure as it is written, nested braces included; but
  phase 2 has deleted the caption command by then, from \<open>\caption{\<close> to the first
  closing brace, and the figure is rendered without a caption.
\<close>

theorem figure_caption_lost:
  \<open>mainCaption ([BS] @ ''includegraphics{Project-1/orbit.png}'' @ [BS] @ ''caption{Orbit of {S2}}'') = ''Orbit of {S2}'' \<and>
   removeAll figureLeakRxs ([BS] @ ''begin{figure}'' @ [BS] @ ''includegraphics{Project-1/orbit.png}'' @ [BS]
       @ ''caption{Orbit of {S2}}'' @ [BS] @ ''end{figure}'') =
     ([BS] @ ''begin{figure}'' @ [BS] @ ''includegraphics{Project-1/orbit.png}}'' @ [BS]
       @ ''end{figure}'') \<and>
   parseAndRender ([BS] @ ''begin{figure}'' @ [BS] @ ''includegraphics{Project-1/orbit.png}'' @ [BS]
       @ ''caption{Orbit of {S2}}'' @ [BS] @ ''end{figure}'')
     [(''orbit.png'', ''/assets/Project-1/orbit.png'')] =
     (''<figure class="my-8">'' @ [NL] @ ''        <div class="flex flex-wrap gap-4 justify-center">''
       @ [NL]
       @ ''          <img src="/assets/Project-1/orbit.png" alt="Project-1/orbit.png" class="max-w-3xl w-full h-auto rounded-lg mx-auto" loading="lazy" />''
       @ [NL] @ ''        </div>'' @ [NL] @ ''        '' @ [NL] @ ''      </figure>'')\<close>
  by code_simp

subsection \<open>The payload of a math placeholder\<close>

text \<open>
  C2 says that the text which the \<open>data-math\<close> attribute hands to the math renderer is the
  trimmed source between the delimiters, whatever characters it holds. The markup is
  built without escaping the math: for the inline math \<open>a"b\<close> the attribute ends at
  the quote of the math, and the renderer is handed \<open>a\<close>.
\<close>

theorem math_payload_quote_truncated:
  \<open>parseAndRender ''$a"b$'' [] =
     ''<p class="mb-4 leading-relaxed text-gray-200"><span data-math="a"b" data-display="false"></span></p>'' \<and>
   dataMathAttr ''<p class="mb-4 leading-relaxed text-gray-200"><span data-math="a"b" data-display="false"></span></p>'' = Some ''a''\<close>
  by code_simp

subsection \<open>The restoration of the math\<close>

text \<open>
  C3 says that the stored markup is put back verbatim and is never read as
  replacement-pattern syntax. The markup is passed to \<open>replace\<close> as the replacement
  text, where \<open>$$\<close> stands for one dollar sign: the display math \<open>a$$b\<close> is stored as
  it is written and comes back as \<open>a$b\<close>.
\<close>

theorem math_restore_dollar_pattern:
  \<open>phase1 (phase0 ([BS] @ ''[a$$b'' @ [BS] @ '']'')) =
     (''__MATH_DISPLAY_0__'',
      \<lparr>mathBlocks = [(''__MATH_DISPLAY_0__'', ''<div class="my-6 overflow-x-auto" data-math="a$$b" data-display="true"></div>'')], mathCounter = 1\<rparr>) \<and>
   parseAndRender ([BS] @ ''[a$$b'' @ [BS] @ '']'') [] =
     ''<p class="mb-4 leading-relaxed text-gray-200"><div class="my-6 overflow-x-auto" data-math="a$b" data-display="true"></div></p>''\<close>
  by code_simp

subsection \<open>The display size of a figure's image\<close>

text \<open>
  C7 says that the fraction 0.5 of a width specifier selects the medium class, also when
  it is written as a multiple of \<open>\textwidth\<close>. The figure phase would select it; but
  phase 2 has deleted \<open>0.5\textwidth\<close> from the specifier by then, and the image gets
  the full class.
\<close>

theorem figure_width_class_full:
  \<open>sizeClassOf (''width=0.5'' @ [BS] @ ''textwidth'') = ''max-w-md w-full'' \<and>
   stripWidths ([BS] @ ''begin{figure}'' @ [BS] @ ''includegraphics[width=0.5'' @ [BS]
       @ ''textwidth]{Project-1/orbit.png}'' @ [BS] @ ''end{figure}'') =
     ([BS] @ ''begin{figure}'' @ [BS] @ ''includegraphics[width=]{Project-1/orbit.png}'' @ [BS]
       @ ''end{figure}'') \<and>
   parseAndRender ([BS] @ ''begin{figure}'' @ [BS] @ ''includegraphics[width=0.5'' @ [BS]
       @ ''textwidth]{Project-1/orbit.png}'' @ [BS] @ ''end{figure}'')
     [(''orbit.png'', ''/assets/Project-1/orbit.png'')] =
     (''<figure class="my-8">'' @ [NL] @ ''        <div class="flex flex-wrap gap-4 justify-center">''
       @ [NL]
       @ ''          <img src="/assets/Project-1/orbit.png" alt="Project-1/orbit.png" class="max-w-3xl w-full h-auto rounded-lg mx-auto" loading="lazy" />''
       @ [NL] @ ''        </div>'' @ [NL] @ ''        '' @ [NL] @ ''      </figure>'')\<close>
  by code_simp

subsection \<open>Transpiling the output again\<close>

text \<open>
  C8 says that a second pass over the output changes nothing but command tokens and never
  escapes an entity again. In the first output below a command token stands alone on a
  line; the second pass removes it, the blank line that is left splits the paragraph, and
  the second block, which does not begin with a tag, is escaped again: \<open>&amp;\<close>
  becomes \<open>&amp;amp;\<close>. In the second example a pair of braces that survived the
  first pass is removed by the second.
\<close>

theorem retranspile_counterexample:
  \<open>parseAndRender (''x'' @ [NL] @ [BS] @ [BS] @ ''a{}b'' @ [NL] @ ''y & z'') [] =
     (''<p class="mb-4 leading-relaxed text-gray-200">x'' @ [NL] @ [BS] @ ''b'' @ [NL]
       @ ''y &amp; z</p>'') \<and>
   parseAndRender (''<p class="mb-4 leading-relaxed text-gray-200">x'' @ [NL] @ [BS] @ ''b'' @ [NL]
       @ ''y &amp; z</p>'') [] =
     ''<p class="mb-4 leading-relaxed text-gray-200">x<p class="mb-4 leading-relaxed text-gray-200">y &amp;amp; z&lt;/p&gt;</p>'' \<and>
   parseAndRender ''{{a}}'' [] =
     ''<p class="mb-4 leading-relaxed text-gray-200">{a}</p>'' \<and>
   parseAndRender ''<p class="mb-4 leading-relaxed text-gray-200">{a}</p>'' [] =
     ''<p class="mb-4 leading-relaxed text-gray-200">a</p>''\<close>
  by code_simp

text \<open>
  C8, as the source has it. The second pass changes an output only where one of the
  expressions of the pipeline finds a match in it, or white space at its ends: for
  every input whose output is settled (no match of any expression of the pipeline, so
  no command token, no pair of braces or of math delimiters, no float option, no
  \<open>0.48\<close>, no percent sign, no line without a letter or digit, no line of hyphens, no
  hyphen bullet, no list item and no blank line; empty or beginning with a tag; no white
  space at its ends), applying the transpile function to that output gives the same
  output again, and so no entity is escaped twice. Every input that is prose has such
  an output: the trimmed text, escaped, in one paragraph element.
\<close>

theorem retranspile_settled:
  "(settled (parseAndRender t images) \<longrightarrow>
      parseAndRender (parseAndRender t images) images' = parseAndRender t images) \<and>
   (prose t \<longrightarrow>
      parseAndRender t images =
        (if trim t = [] then [] else paragraphOpen @ escapeHtml (trim t) @ ''</p>'') \<and>
      settled (parseAndRender t images))"
  using render_settled render_prose settled_prose by blast

theorem retranspile_settled_witness:
  \<open>settled (parseAndRender ''Energy $E=mc^2$ is conserved.'' []) \<and>
   parseAndRender ''Energy $E=mc^2$ is conserved.'' [] = ''<p class="mb-4 leading-relaxed text-gray-200">Energy <span data-math="E=mc^2" data-display="false"></span> is conserved.</p>'' \<and>
   parseAndRender ''<p class="mb-4 leading-relaxed text-gray-200">Energy <span data-math="E=mc^2" data-display="false"></span> is conserved.</p>'' [] = ''<p class="mb-4 leading-relaxed text-gray-200">Energy <span data-math="E=mc^2" data-display="false"></span> is conserved.</p>'' \<and>
   settled (parseAndRender (BS # ''title{Orbits}'' @ [NL] @ ''First line.'' @ [NL] @ ''Second & last.'') []) \<and>
   parseAndRender (BS # ''title{Orbits}'' @ [NL] @ ''First line.'' @ [NL] @ ''Second & last.'') [] = (''<h1 class="text-4xl font-bold mb-3 text-white">Orbits</h1>'' @ [NL] @ ''<p class="mb-4 leading-relaxed text-gray-200">First line.'' @ [NL] @ ''Second &amp; last.</p>'') \<and>
   parseAndRender (''<h1 class="text-4xl font-bold mb-3 text-white">Orbits</h1>'' @ [NL] @ ''<p class="mb-4 leading-relaxed text-gray-200">First line.'' @ [NL] @ ''Second &amp; last.</p>'') [] = (''<h1 class="text-4xl font-bold mb-3 text-white">Orbits</h1>'' @ [NL] @ ''<p class="mb-4 leading-relaxed text-gray-200">First line.'' @ [NL] @ ''Second &amp; last.</p>'') \<and>
   prose ''Tom & Jerry, a well-known pair.'' \<and>
   parseAndRender ''Tom & Jerry, a well-known pair.'' [] = ''<p class="mb-4 leading-relaxed text-gray-200">Tom &amp; Jerry, a well-known pair.</p>'' \<and>
   parseAndRender ''<p class="mb-4 leading-relaxed text-gray-200">Tom &amp; Jerry, a well-known pair.</p>'' [] = ''<p class="mb-4 leading-relaxed text-gray-200">Tom &amp; Jerry, a well-known pair.</p>''\<close>
proof -
  have h1: "settled (parseAndRender ''Energy $E=mc^2$ is conserved.'' [])" by code_simp
  have o1: \<open>parseAndRender ''Energy $E=mc^2$ is conserved.'' [] = ''<p class="mb-4 leading-relaxed text-gray-200">Energy <span data-math="E=mc^2" data-display="false"></span> is conserved.</p>''\<close> by code_simp
  have h2: "settled (parseAndRender (BS # ''title{Orbits}'' @ [NL] @ ''First line.'' @ [NL] @ ''Second & last.'') [])" by code_simp
  have o2: \<open>parseAndRender (BS # ''title{Orbits}'' @ [NL] @ ''First line.'' @ [NL] @ ''Second & last.'') [] = (''<h1 class="text-4xl font-bold mb-3 text-white">Orbits</h1>'' @ [NL] @ ''<p class="mb-4 leading-relaxed text-gray-200">First line.'' @ [NL] @ ''Second &amp; last.</p>'')\<close> by code_simp
  have h3: "prose ''Tom & Jerry, a well-known pair.''" by code_simp
  have e3: \<open>(if trim ''Tom & Jerry, a well-known pair.'' = [] then [] else paragraphOpen @ escapeHtml (trim ''Tom & Jerry, a well-known pair.'') @ ''</p>'') = ''<p class="mb-4 leading-relaxed text-gray-200">Tom &amp; Jerry, a well-known pair.</p>''\<close>
    by code_simp
  from retranspile_settled[of "''Energy $E=mc^2$ is conserved.''" "[]" "[]"] h1
  have a: "parseAndRender (parseAndRender ''Energy $E=mc^2$ is conserved.'' []) [] = parseAndRender ''Energy $E=mc^2$ is conserved.'' []"
    by blast
  have a': \<open>parseAndRender ''<p class="mb-4 leading-relaxed text-gray-200">Energy <span data-math="E=mc^2" data-display="false"></span> is conserved.</p>'' [] = ''<p class="mb-4 leading-relaxed text-gray-200">Energy <span data-math="E=mc^2" data-display="false"></span> is conserved.</p>''\<close>
    using a unfolding o1 .
  from retranspile_settled[of "(BS # ''title{Orbits}'' @ [NL] @ ''First line.'' @ [NL] @ ''Second & last.'')" "[]" "[]"] h2
  have b: "parseAndRender (parseAndRender (BS # ''title{Orbits}'' @ [NL] @ ''First line.'' @ [NL] @ ''Second & last.'') []) [] = parseAndRender (BS # ''title{Orbits}'' @ [NL] @ ''First line.'' @ [NL] @ ''Second & last.'') []"
    by blast
  have b': \<open>parseAndRender (''<h1 class="text-4xl font-bold mb-3 text-white">Orbits</h1>'' @ [NL] @ ''<p class="mb-4 leading-relaxed text-gray-200">First line.'' @ [NL] @ ''Second &amp; last.</p>'') [] = (''<h1 class="text-4xl font-bold mb-3 text-white">Orbits</h1>'' @ [NL] @ ''<p class="mb-4 leading-relaxed text-gray-200">First line.'' @ [NL] @ ''Second &amp; last.</p>'')\<close>
    using b unfolding o2 .
  from retranspile_settled[of "''Tom & Jerry, a well-known pair.''" "[]" "[]"] h3
  have c: \<open>parseAndRender ''Tom & Jerry, a well-known pair.'' [] = ''<p class="mb-4 leading-relaxed text-gray-200">Tom &amp; Jerry, a well-known pair.</p>''\<close>
    and c1: "settled (parseAndRender ''Tom & Jerry, a well-known pair.'' [])"
    unfolding e3 by blast+
  from retranspile_settled[of "''Tom & Jerry, a well-known pair.''" "[]" "[]"] c1
  have d: "parseAndRender (parseAndRender ''Tom & Jerry, a well-known pair.'' []) [] = parseAndRender ''Tom & Jerry, a well-known pair.'' []"
    by blast
  have d': \<open>parseAndRender ''<p class="mb-4 leading-relaxed text-gray-200">Tom &amp; Jerry, a well-known pair.</p>'' [] = ''<p class="mb-4 leading-relaxed text-gray-200">Tom &amp; Jerry, a well-known pair.</p>''\<close>
    using d unfolding c .
  show ?thesis using h1 o1 a' h2 o2 b' h3 c d' by blast
qed

end
